theory Spec2Isabelle
  imports Main "HOL-Library.AList" "HOL-Library.Multiset"
begin

section \<open>The in-memory storage layer of Negocio-Admin (server/storage.ts)\<close>

text \<open>
  A shallow embedding of \<^verbatim>\<open>MemStorage\<close> and of the record types of
  \<^verbatim>\<open>shared/schema.ts\<close>.

  \<^item> Every method is a function from the storage state to its result and the new state.
  \<^item> What the platform supplies is an argument: the value of \<^verbatim>\<open>randomUUID()\<close>, the
    reading of \<^verbatim>\<open>new Date()\<close>, the local calendar of \<^verbatim>\<open>Date\<close> (any time zone, with or
    without daylight-saving transitions) and the arithmetic of JavaScript numbers used by
    \<^verbatim>\<open>parseFloat\<close> and \<^verbatim>\<open>+\<close>.
  \<^item> A \<^verbatim>\<open>Date\<close> that the storage makes itself (\<^verbatim>\<open>new Date()\<close> and what the calendar
    computes from it) is its time value, the milliseconds since the epoch, as an \<open>int\<close>.
    A \<^verbatim>\<open>Date\<close> that a caller supplies is a time value or an Invalid Date.
  \<^item> Values range over their TypeScript types. An optional property is absent or holds
    a value of its type; \<^verbatim>\<open>scheduledDate\<close>, which server/routes.ts always passes to
    \<^verbatim>\<open>updateDelivery\<close>, and \<^verbatim>\<open>totalValue\<close>, which \<^verbatim>\<open>getDashboardStats\<close> guards, can
    also be present with the value \<^verbatim>\<open>undefined\<close>.
  \<^item> \<^verbatim>\<open>orderCounter\<close> and \<^verbatim>\<open>orderNumber\<close> are integer-valued numbers, modelled as
    \<open>int\<close>; increments by one are exact below \<open>2^53\<close>.
\<close>

subsection \<open>JavaScript values\<close>

type_synonym uuid = string
type_synonym Date = int

text \<open>A \<^verbatim>\<open>Date\<close> object that a caller supplies: a time value or an Invalid Date.\<close>

datatype DateObject = Time Date | Invalid_Date

text \<open>
  \<^verbatim>\<open>new Date(x).getTime()\<close> for a property \<open>x\<close> that holds a \<^verbatim>\<open>Date\<close> or \<^verbatim>\<open>undefined\<close>
  (\<open>None\<close>): a number, where \<open>None\<close> is \<^verbatim>\<open>NaN\<close>.
\<close>

fun getTime :: "DateObject option \<Rightarrow> int option" where
  "getTime None = None"
| "getTime (Some Invalid_Date) = None"
| "getTime (Some (Time t)) = Some t"

text \<open>The difference of two numbers: \<^verbatim>\<open>NaN\<close> when one of them is.\<close>

fun minus_number :: "int option \<Rightarrow> int option \<Rightarrow> int option" where
  "minus_number (Some a) (Some b) = Some (a - b)"
| "minus_number a b = None"

text \<open>Comparisons of a number with a time value: false when the number is \<^verbatim>\<open>NaN\<close>.\<close>

fun ge_number :: "int option \<Rightarrow> int \<Rightarrow> bool" where
  "ge_number None b = False"
| "ge_number (Some a) b = (b \<le> a)"

fun lt_number :: "int option \<Rightarrow> int \<Rightarrow> bool" where
  "lt_number None b = False"
| "lt_number (Some a) b = (a < b)"

text \<open>
  A property of a \<^verbatim>\<open>Partial\<close> record that can be absent, present with the value
  \<^verbatim>\<open>undefined\<close>, or present with a value.
\<close>

datatype 'a optional = Absent | Undefined | Present 'a

text \<open>Reading the property: \<^verbatim>\<open>undefined\<close> (\<open>None\<close>) unless it holds a value.\<close>

fun prop_value :: "'a optional \<Rightarrow> 'a option" where
  "prop_value Absent = None"
| "prop_value Undefined = None"
| "prop_value (Present v) = Some v"

text \<open>Spreading it over a stored property: a present \<^verbatim>\<open>undefined\<close> overwrites too.\<close>

fun spread_prop :: "'a optional \<Rightarrow> 'a option \<Rightarrow> 'a option" where
  "spread_prop Absent old = old"
| "spread_prop Undefined old = None"
| "spread_prop (Present v) old = Some v"

text \<open>A property of type \<^verbatim>\<open>T | null | undefined\<close>: absent, \<^verbatim>\<open>null\<close> or a value.\<close>

datatype 'a field = Missing | Null | Value 'a

text \<open>\<^verbatim>\<open>x || null\<close> on a string property: absent, \<^verbatim>\<open>null\<close> and the empty string are falsy.\<close>

fun or_null :: "string field \<Rightarrow> string option" where
  "or_null Missing = None"
| "or_null Null = None"
| "or_null (Value s) = (if s = [] then None else Some s)"

text \<open>\<^verbatim>\<open>x || d\<close> on an optional string property.\<close>

fun or_default :: "string option \<Rightarrow> string \<Rightarrow> string" where
  "or_default None d = d"
| "or_default (Some s) d = (if s = [] then d else s)"

text \<open>One property of \<^verbatim>\<open>{ ...old, ...data }\<close>: a property present in the patch wins.\<close>

fun spread :: "'a option \<Rightarrow> 'a \<Rightarrow> 'a" where
  "spread None old = old"
| "spread (Some v) old = v"

fun spread_opt :: "'a option \<Rightarrow> 'a option \<Rightarrow> 'a option" where
  "spread_opt None old = old"
| "spread_opt (Some v) old = Some v"

fun spread_field :: "'a field \<Rightarrow> 'a field \<Rightarrow> 'a field" where
  "spread_field Missing old = old"
| "spread_field Null old = Null"
| "spread_field (Value v) old = Value v"

text \<open>The same, onto a stored column of type \<^verbatim>\<open>T | null\<close>.\<close>

fun spread_nullable :: "'a field \<Rightarrow> 'a option \<Rightarrow> 'a option" where
  "spread_nullable Missing old = old"
| "spread_nullable Null old = None"
| "spread_nullable (Value v) old = Some v"

subsection \<open>\<^verbatim>\<open>Map<string, V>\<close>: an association list in insertion order\<close>

text \<open>
  \<^verbatim>\<open>set\<close> replaces the value of an existing key in place and appends a new key at the
  end; \<^verbatim>\<open>delete\<close> reports whether the key was present; \<^verbatim>\<open>values()\<close> iterates in
  insertion order.
\<close>

type_synonym 'v js_map = "(uuid \<times> 'v) list"

definition Map_get :: "'v js_map \<Rightarrow> uuid \<Rightarrow> 'v option" where
  "Map_get m k = map_of m k"

definition Map_set :: "uuid \<Rightarrow> 'v \<Rightarrow> 'v js_map \<Rightarrow> 'v js_map" where
  "Map_set k v m = AList.update k v m"

definition Map_has :: "'v js_map \<Rightarrow> uuid \<Rightarrow> bool" where
  "Map_has m k = (k \<in> set (map fst m))"

definition Map_delete :: "uuid \<Rightarrow> 'v js_map \<Rightarrow> bool \<times> 'v js_map" where
  "Map_delete k m = (Map_has m k, AList.delete k m)"

definition Map_values :: "'v js_map \<Rightarrow> 'v list" where
  "Map_values m = map snd m"

text \<open>
  \<^verbatim>\<open>Array.prototype.sort(cmp)\<close>. The comparison that the sort uses takes a \<^verbatim>\<open>NaN\<close> from
  \<open>cmp\<close> as \<open>0\<close>. For a consistent comparator the result is the one stable sort of the
  array, which this insertion sort computes: it places an element before the first
  later element it does not compare greater than. For a comparator that is not
  consistent (one that returns \<^verbatim>\<open>NaN\<close> for some pairs only) the language leaves the
  order to the implementation; the insertion sort then gives one of the possible orders,
  and no theorem below is about it.
\<close>

fun SortCompare :: "int option \<Rightarrow> int" where
  "SortCompare None = 0"
| "SortCompare (Some v) = v"

fun insert_by :: "('a \<Rightarrow> 'a \<Rightarrow> int option) \<Rightarrow> 'a \<Rightarrow> 'a list \<Rightarrow> 'a list" where
  "insert_by cmp x [] = [x]"
| "insert_by cmp x (y # ys) =
     (if SortCompare (cmp x y) \<le> 0 then x # y # ys else y # insert_by cmp x ys)"

definition Array_sort :: "('a \<Rightarrow> 'a \<Rightarrow> int option) \<Rightarrow> 'a list \<Rightarrow> 'a list" where
  "Array_sort cmp xs = foldr (insert_by cmp) xs []"

text \<open>
  \<^verbatim>\<open>Array.prototype.slice(0, end)\<close> for an integer end index \<open>stop\<close>: a negative one
  counts from the end of the array.
\<close>

definition Array_slice0 :: "int \<Rightarrow> 'a list \<Rightarrow> 'a list" where
  "Array_slice0 stop xs =
     (let len = int (length xs);
          final = (if stop < 0 then max (len + stop) 0 else min stop len)
      in take (nat final) xs)"

subsection \<open>The local calendar of \<^verbatim>\<open>Date\<close>\<close>

text \<open>
  The methods of \<^verbatim>\<open>Date\<close> that the storage calls work in the local time zone of the
  process. They are taken from the platform, as functions on time values:
  \<^item> \<open>setHours0 t\<close> is \<^verbatim>\<open>d.setHours(0, 0, 0, 0)\<close>, the start of the local day of \<open>t\<close>;
  \<^item> \<open>setDatePlus n t\<close> is \<^verbatim>\<open>d.setDate(d.getDate() + n)\<close>, the same local time \<open>n\<close> days
    later;
  \<^item> \<open>getFullYear t\<close> and \<open>getMonth t\<close> are the local year and month (0 to 11) of \<open>t\<close>;
  \<^item> \<open>newDate y m d\<close> is \<^verbatim>\<open>new Date(y, m, d)\<close>, local midnight of that day.
\<close>

record Calendar =
  setHours0 :: "Date \<Rightarrow> Date"
  setDatePlus :: "int \<Rightarrow> Date \<Rightarrow> Date"
  getFullYear :: "Date \<Rightarrow> int"
  getMonth :: "Date \<Rightarrow> int"
  newDate :: "int \<Rightarrow> int \<Rightarrow> int \<Rightarrow> Date"

subsection \<open>The records of shared/schema.ts\<close>

record InsertUser =
  username :: string
  password :: string

record User = InsertUser +
  user_id :: uuid

record Supplier =
  supplier_id :: uuid
  supplier_name :: string
  supplier_active :: bool

record Product =
  product_id :: uuid
  product_name :: string
  unit :: string
  product_active :: bool

text \<open>
  \<^verbatim>\<open>InsertClient\<close>: the columns with a default or without \<^verbatim>\<open>notNull\<close> are optional.
  A stored client is \<^verbatim>\<open>{ ...insertClient, id }\<close>, so it carries the same properties.
\<close>

record InsertClient =
  client_type :: string
  client_name :: string
  tradeName :: "string field"
  document :: string
  stateRegistration :: "string field"
  email :: "string field"
  phone :: "string field"
  cellphone :: "string field"
  zipCode :: "string field"
  street :: "string field"
  client_number :: "string field"
  complement :: "string field"
  neighborhood :: "string field"
  city :: "string field"
  client_state :: "string field"
  client_notes :: "string field"
  client_active :: "bool option"

record Client = InsertClient +
  client_id :: uuid

text \<open>\<^verbatim>\<open>Partial<InsertClient>\<close>.\<close>

record ClientPatch =
  pc_type :: "string option"
  pc_name :: "string option"
  pc_tradeName :: "string field"
  pc_document :: "string option"
  pc_stateRegistration :: "string field"
  pc_email :: "string field"
  pc_phone :: "string field"
  pc_cellphone :: "string field"
  pc_zipCode :: "string field"
  pc_street :: "string field"
  pc_number :: "string field"
  pc_complement :: "string field"
  pc_neighborhood :: "string field"
  pc_city :: "string field"
  pc_state :: "string field"
  pc_notes :: "string field"
  pc_active :: "bool option"

text \<open>
  \<^verbatim>\<open>Order\<close>. \<^verbatim>\<open>createOrder\<close> stores \<^verbatim>\<open>orderData.clientId!\<close>, which is absent when the
  caller's partial record has none. \<^verbatim>\<open>totalValue\<close> is \<^verbatim>\<open>undefined\<close> (\<open>None\<close>) after an
  update has spread an \<^verbatim>\<open>undefined\<close> over it.
\<close>

record Order =
  order_id :: uuid
  orderNumber :: int
  clientId :: "uuid option"
  supplierId :: "uuid option"
  order_status :: string
  totalValue :: "string option"
  order_notes :: "string option"
  createdAt :: Date

text \<open>\<^verbatim>\<open>Partial<InsertOrder>\<close>: \<^verbatim>\<open>InsertOrder\<close> omits \<^verbatim>\<open>id\<close> and \<^verbatim>\<open>createdAt\<close>.\<close>

record OrderPatch =
  po_orderNumber :: "int option"
  po_clientId :: "uuid option"
  po_supplierId :: "uuid option"
  po_status :: "string option"
  po_totalValue :: "string optional"
  po_notes :: "string field"

record InsertOrderItem =
  item_orderId :: uuid
  productId :: uuid
  quantity :: string
  unitPrice :: string
  totalPrice :: string

record OrderItem = InsertOrderItem +
  item_id :: uuid

record Delivery =
  delivery_id :: uuid
  delivery_orderId :: uuid
  scheduledDate :: "DateObject option"
  scheduledTime :: "string option"
  delivery_status :: string
  deliveryAddress :: "string option"
  driverName :: "string option"
  vehiclePlate :: "string option"
  delivery_notes :: "string option"
  deliveredAt :: "Date option"

text \<open>
  \<^verbatim>\<open>Delivery\<close> above: \<^verbatim>\<open>scheduledDate\<close> is \<^verbatim>\<open>undefined\<close> (\<open>None\<close>) after an update has
  spread an \<^verbatim>\<open>undefined\<close> over it. \<^verbatim>\<open>InsertDelivery\<close> omits only \<^verbatim>\<open>id\<close>: it has a
  \<^verbatim>\<open>deliveredAt\<close> property.
\<close>

record InsertDelivery =
  id_orderId :: uuid
  id_scheduledDate :: DateObject
  id_scheduledTime :: "string field"
  id_status :: "string option"
  id_deliveryAddress :: "string field"
  id_driverName :: "string field"
  id_vehiclePlate :: "string field"
  id_notes :: "string field"
  id_deliveredAt :: "Date field"

text \<open>\<^verbatim>\<open>Partial<InsertDelivery>\<close>.\<close>

record DeliveryPatch =
  pd_orderId :: "uuid option"
  pd_scheduledDate :: "DateObject optional"
  pd_scheduledTime :: "string field"
  pd_status :: "string option"
  pd_deliveryAddress :: "string field"
  pd_driverName :: "string field"
  pd_vehiclePlate :: "string field"
  pd_notes :: "string field"
  pd_deliveredAt :: "Date field"

record Invoice =
  invoice_id :: uuid
  invoice_orderId :: uuid
  invoiceNumber :: string
  series :: "string option"
  issueDate :: DateObject
  invoice_value :: "string option"
  invoice_notes :: "string option"

record InsertInvoice =
  ii_orderId :: uuid
  ii_invoiceNumber :: string
  ii_series :: "string field"
  ii_issueDate :: DateObject
  ii_value :: "string field"
  ii_notes :: "string field"

text \<open>
  The detail views. A reference that does not resolve leaves the attached property
  \<^verbatim>\<open>undefined\<close> (\<open>None\<close>).
\<close>

record OrderItemWithProduct = OrderItem +
  product :: "Product option"

record OrderWithParties = Order +
  client :: "Client option"
  supplier :: "Supplier option"

record OrderWithDetails = OrderWithParties +
  items :: "OrderItemWithProduct list"
  detail_deliveries :: "Delivery list"
  detail_invoices :: "Invoice list"

record DeliveryWithDetails = Delivery +
  delivery_order :: "OrderWithParties option"

record 'n DashboardStats =
  pendingOrders :: nat
  todayDeliveries :: nat
  activeClients :: nat
  monthlyValue :: 'n

text \<open>The arithmetic of JavaScript numbers that \<^verbatim>\<open>getDashboardStats\<close> uses.\<close>

record 'n Number_ops =
  parseFloat :: "string \<Rightarrow> 'n"
  plus_number :: "'n \<Rightarrow> 'n \<Rightarrow> 'n"
  zero_number :: 'n

subsection \<open>The state of \<^verbatim>\<open>MemStorage\<close>\<close>

record MemStorage =
  users :: "User js_map"
  clients :: "Client js_map"
  products :: "Product js_map"
  suppliers :: "Supplier js_map"
  orders :: "Order js_map"
  orderItems :: "OrderItem js_map"
  deliveries :: "Delivery js_map"
  invoices :: "Invoice js_map"
  orderCounter :: int

definition MemStorage_empty :: MemStorage where
  "MemStorage_empty =
     \<lparr>users = [], clients = [], products = [], suppliers = [], orders = [],
      orderItems = [], deliveries = [], invoices = [], orderCounter = 1000\<rparr>"

subsection \<open>Users, clients, products, suppliers\<close>

definition getUser :: "MemStorage \<Rightarrow> uuid \<Rightarrow> User option" where
  "getUser s ident = Map_get (users s) ident"

definition getUserByUsername :: "MemStorage \<Rightarrow> string \<Rightarrow> User option" where
  "getUserByUsername s name = find (\<lambda>user. username user = name) (Map_values (users s))"

definition createUser :: "uuid \<Rightarrow> InsertUser \<Rightarrow> MemStorage \<Rightarrow> User \<times> MemStorage" where
  "createUser ident insertUser s =
     (let user = InsertUser.extend insertUser (User.fields ident)
      in (user, s\<lparr>users := Map_set ident user (users s)\<rparr>))"

definition getClients :: "MemStorage \<Rightarrow> Client list" where
  "getClients s = Map_values (clients s)"

definition getClient :: "MemStorage \<Rightarrow> uuid \<Rightarrow> Client option" where
  "getClient s ident = Map_get (clients s) ident"

text \<open>\<^verbatim>\<open>{ ...insertClient, id }\<close>: the caller's properties and the id, nothing else.\<close>

definition createClient :: "uuid \<Rightarrow> InsertClient \<Rightarrow> MemStorage \<Rightarrow> Client \<times> MemStorage" where
  "createClient ident insertClient s =
     (let c = InsertClient.extend insertClient (Client.fields ident)
      in (c, s\<lparr>clients := Map_set ident c (clients s)\<rparr>))"

definition merge_client :: "Client \<Rightarrow> ClientPatch \<Rightarrow> Client" where
  "merge_client c d =
     c\<lparr>client_type := spread (pc_type d) (client_type c),
       client_name := spread (pc_name d) (client_name c),
       tradeName := spread_field (pc_tradeName d) (tradeName c),
       document := spread (pc_document d) (document c),
       stateRegistration := spread_field (pc_stateRegistration d) (stateRegistration c),
       email := spread_field (pc_email d) (email c),
       phone := spread_field (pc_phone d) (phone c),
       cellphone := spread_field (pc_cellphone d) (cellphone c),
       zipCode := spread_field (pc_zipCode d) (zipCode c),
       street := spread_field (pc_street d) (street c),
       client_number := spread_field (pc_number d) (client_number c),
       complement := spread_field (pc_complement d) (complement c),
       neighborhood := spread_field (pc_neighborhood d) (neighborhood c),
       city := spread_field (pc_city d) (city c),
       client_state := spread_field (pc_state d) (client_state c),
       client_notes := spread_field (pc_notes d) (client_notes c),
       client_active := spread_opt (pc_active d) (client_active c)\<rparr>"

definition updateClient ::
  "uuid \<Rightarrow> ClientPatch \<Rightarrow> MemStorage \<Rightarrow> Client option \<times> MemStorage" where
  "updateClient ident data s =
     (case Map_get (clients s) ident of
        None \<Rightarrow> (None, s)
      | Some c \<Rightarrow>
          (let updated = merge_client c data
           in (Some updated, s\<lparr>clients := Map_set ident updated (clients s)\<rparr>)))"

definition deleteClient :: "uuid \<Rightarrow> MemStorage \<Rightarrow> bool \<times> MemStorage" where
  "deleteClient ident s =
     (let (removed, m) = Map_delete ident (clients s) in (removed, s\<lparr>clients := m\<rparr>))"

definition getProducts :: "MemStorage \<Rightarrow> Product list" where
  "getProducts s = Map_values (products s)"

definition getProduct :: "MemStorage \<Rightarrow> uuid \<Rightarrow> Product option" where
  "getProduct s ident = Map_get (products s) ident"

definition getSuppliers :: "MemStorage \<Rightarrow> Supplier list" where
  "getSuppliers s = Map_values (suppliers s)"

definition getSupplier :: "MemStorage \<Rightarrow> uuid \<Rightarrow> Supplier option" where
  "getSupplier s ident = Map_get (suppliers s) ident"

subsection \<open>Order items, invoices and the detail views\<close>

definition getOrderItems :: "MemStorage \<Rightarrow> uuid \<Rightarrow> OrderItem list" where
  "getOrderItems s orderId =
     filter (\<lambda>item. item_orderId item = orderId) (Map_values (orderItems s))"

definition getInvoices :: "MemStorage \<Rightarrow> uuid \<Rightarrow> Invoice list" where
  "getInvoices s orderId =
     filter (\<lambda>invoice. invoice_orderId invoice = orderId) (Map_values (invoices s))"

text \<open>The deliveries of an order: the scan that \<^verbatim>\<open>buildOrderWithDetails\<close> makes.\<close>

definition deliveriesOf :: "MemStorage \<Rightarrow> uuid \<Rightarrow> Delivery list" where
  "deliveriesOf s orderId =
     filter (\<lambda>d. delivery_orderId d = orderId) (Map_values (deliveries s))"

definition createInvoice :: "uuid \<Rightarrow> InsertInvoice \<Rightarrow> MemStorage \<Rightarrow> Invoice \<times> MemStorage" where
  "createInvoice ident insertInvoice s =
     (let invoice =
            \<lparr>invoice_id = ident,
             invoice_orderId = ii_orderId insertInvoice,
             invoiceNumber = ii_invoiceNumber insertInvoice,
             series = or_null (ii_series insertInvoice),
             issueDate = ii_issueDate insertInvoice,
             invoice_value = or_null (ii_value insertInvoice),
             invoice_notes = or_null (ii_notes insertInvoice)\<rparr>
      in (invoice, s\<lparr>invoices := Map_set ident invoice (invoices s)\<rparr>))"

text \<open>\<^verbatim>\<open>Map.get\<close> of an absent reference finds nothing.\<close>

definition resolve :: "(uuid \<Rightarrow> 'a option) \<Rightarrow> uuid option \<Rightarrow> 'a option" where
  "resolve get r = (case r of None \<Rightarrow> None | Some k \<Rightarrow> get k)"

definition withParties :: "MemStorage \<Rightarrow> Order \<Rightarrow> OrderWithParties" where
  "withParties s ord =
     Order.extend ord
       (OrderWithParties.fields (resolve (getClient s) (clientId ord))
          (resolve (getSupplier s) (supplierId ord)))"

definition buildOrderWithDetails :: "MemStorage \<Rightarrow> Order \<Rightarrow> OrderWithDetails" where
  "buildOrderWithDetails s ord =
     (let its = getOrderItems s (order_id ord);
          dels = deliveriesOf s (order_id ord);
          invs = getInvoices s (order_id ord);
          itemsWithProducts =
            map (\<lambda>item. OrderItem.extend item
                   (OrderItemWithProduct.fields (getProduct s (productId item)))) its
      in OrderWithParties.extend (withParties s ord)
           (OrderWithDetails.fields itemsWithProducts dels invs))"

definition buildDeliveryWithDetails :: "MemStorage \<Rightarrow> Delivery \<Rightarrow> DeliveryWithDetails" where
  "buildDeliveryWithDetails s delivery =
     Delivery.extend delivery
       (DeliveryWithDetails.fields
          (map_option (withParties s) (Map_get (orders s) (delivery_orderId delivery))))"

subsection \<open>Orders\<close>

definition getOrders :: "MemStorage \<Rightarrow> OrderWithDetails list" where
  "getOrders s =
     Array_sort (\<lambda>a b. Some (createdAt b - createdAt a))
       (map (buildOrderWithDetails s) (Map_values (orders s)))"

definition getOrder :: "MemStorage \<Rightarrow> uuid \<Rightarrow> OrderWithDetails option" where
  "getOrder s ident = map_option (buildOrderWithDetails s) (Map_get (orders s) ident)"

definition getRecentOrders :: "MemStorage \<Rightarrow> int \<Rightarrow> OrderWithDetails list" where
  "getRecentOrders s limit = Array_slice0 limit (getOrders s)"

text \<open>
  \<^verbatim>\<open>createOrder\<close> draws one id for the order and one for each item: \<open>uuid 0\<close> and
  \<open>uuid (k + 1)\<close> for the item at index \<open>k\<close>.
\<close>

definition newOrderItem :: "uuid \<Rightarrow> uuid \<Rightarrow> InsertOrderItem \<Rightarrow> OrderItem" where
  "newOrderItem itemId orderId item =
     \<lparr>item_orderId = orderId, productId = productId item, quantity = quantity item,
      unitPrice = unitPrice item, totalPrice = totalPrice item, item_id = itemId\<rparr>"

definition newOrder :: "uuid \<Rightarrow> int \<Rightarrow> OrderPatch \<Rightarrow> Date \<Rightarrow> Order" where
  "newOrder ident counter orderData now =
     \<lparr>order_id = ident,
      orderNumber = counter,
      clientId = po_clientId orderData,
      supplierId = po_supplierId orderData,
      order_status = or_default (po_status orderData) ''pending'',
      totalValue = Some (or_default (prop_value (po_totalValue orderData)) ''0''),
      order_notes = or_null (po_notes orderData),
      createdAt = now\<rparr>"

definition createOrder ::
  "(nat \<Rightarrow> uuid) \<Rightarrow> Date \<Rightarrow> OrderPatch \<Rightarrow> InsertOrderItem list \<Rightarrow> MemStorage
     \<Rightarrow> OrderWithDetails \<times> MemStorage" where
  "createOrder uuid now orderData its s =
     (let ident = uuid 0;
          counter = orderCounter s + 1;
          ord = newOrder ident counter orderData now;
          s1 = s\<lparr>orderCounter := counter, orders := Map_set ident ord (orders s)\<rparr>;
          s2 = s1\<lparr>orderItems :=
                    fold (\<lambda>(k, item). Map_set (uuid (Suc k)) (newOrderItem (uuid (Suc k)) ident item))
                      (enumerate 0 its) (orderItems s1)\<rparr>
      in (buildOrderWithDetails s2 ord, s2))"

definition merge_order :: "Order \<Rightarrow> OrderPatch \<Rightarrow> Order" where
  "merge_order ord d =
     ord\<lparr>orderNumber := spread (po_orderNumber d) (orderNumber ord),
         clientId := spread_opt (po_clientId d) (clientId ord),
         supplierId := spread_opt (po_supplierId d) (supplierId ord),
         order_status := spread (po_status d) (order_status ord),
         totalValue := spread_prop (po_totalValue d) (totalValue ord),
         order_notes := spread_nullable (po_notes d) (order_notes ord)\<rparr>"

definition updateOrder ::
  "uuid \<Rightarrow> OrderPatch \<Rightarrow> MemStorage \<Rightarrow> Order option \<times> MemStorage" where
  "updateOrder ident data s =
     (case Map_get (orders s) ident of
        None \<Rightarrow> (None, s)
      | Some ord \<Rightarrow>
          (let updated = merge_order ord data
           in (Some updated, s\<lparr>orders := Map_set ident updated (orders s)\<rparr>)))"

text \<open>
  \<^verbatim>\<open>xs.forEach((x) => map.delete(x.id))\<close>: every record of \<open>xs\<close> is deleted under its
  own \<^verbatim>\<open>id\<close> property.
\<close>

definition delete_each :: "('v \<Rightarrow> uuid) \<Rightarrow> 'v list \<Rightarrow> 'v js_map \<Rightarrow> 'v js_map" where
  "delete_each ident xs m = fold (\<lambda>x m'. snd (Map_delete (ident x) m')) xs m"

definition deleteOrder :: "uuid \<Rightarrow> MemStorage \<Rightarrow> bool \<times> MemStorage" where
  "deleteOrder ident s =
     (let its = filter (\<lambda>item. item_orderId item = ident) (Map_values (orderItems s));
          s1 = s\<lparr>orderItems := delete_each item_id its (orderItems s)\<rparr>;
          dels = filter (\<lambda>d. delivery_orderId d = ident) (Map_values (deliveries s1));
          s2 = s1\<lparr>deliveries := delete_each delivery_id dels (deliveries s1)\<rparr>;
          invs = filter (\<lambda>i. invoice_orderId i = ident) (Map_values (invoices s2));
          s3 = s2\<lparr>invoices := delete_each invoice_id invs (invoices s2)\<rparr>;
          (removed, m) = Map_delete ident (orders s3)
      in (removed, s3\<lparr>orders := m\<rparr>))"

subsection \<open>Deliveries\<close>

definition getDeliveries :: "MemStorage \<Rightarrow> DeliveryWithDetails list" where
  "getDeliveries s =
     Array_sort (\<lambda>a b. minus_number (getTime (scheduledDate b)) (getTime (scheduledDate a)))
       (map (buildDeliveryWithDetails s) (Map_values (deliveries s)))"

definition getDelivery :: "MemStorage \<Rightarrow> uuid \<Rightarrow> DeliveryWithDetails option" where
  "getDelivery s ident = map_option (buildDeliveryWithDetails s) (Map_get (deliveries s) ident)"

text \<open>
  \<^verbatim>\<open>today\<close> and \<^verbatim>\<open>tomorrow\<close> of the methods below, and their test
  \<^verbatim>\<open>scheduledDate >= today && scheduledDate < tomorrow\<close> on
  \<^verbatim>\<open>new Date(d.scheduledDate)\<close>.
\<close>

definition scheduledToday :: "Calendar \<Rightarrow> Date \<Rightarrow> Delivery \<Rightarrow> bool" where
  "scheduledToday cal now d =
     (let today = setHours0 cal now;
          tomorrow = setDatePlus cal 1 today
      in ge_number (getTime (scheduledDate d)) today
         \<and> lt_number (getTime (scheduledDate d)) tomorrow)"

definition getTodayDeliveries ::
  "Calendar \<Rightarrow> Date \<Rightarrow> MemStorage \<Rightarrow> DeliveryWithDetails list" where
  "getTodayDeliveries cal now s =
     map (buildDeliveryWithDetails s)
       (filter (scheduledToday cal now) (Map_values (deliveries s)))"

definition createDelivery ::
  "uuid \<Rightarrow> InsertDelivery \<Rightarrow> MemStorage \<Rightarrow> Delivery \<times> MemStorage" where
  "createDelivery ident insertDelivery s =
     (let delivery =
            \<lparr>delivery_id = ident,
             delivery_orderId = id_orderId insertDelivery,
             scheduledDate = Some (id_scheduledDate insertDelivery),
             scheduledTime = or_null (id_scheduledTime insertDelivery),
             delivery_status = or_default (id_status insertDelivery) ''pending'',
             deliveryAddress = or_null (id_deliveryAddress insertDelivery),
             driverName = or_null (id_driverName insertDelivery),
             vehiclePlate = or_null (id_vehiclePlate insertDelivery),
             delivery_notes = or_null (id_notes insertDelivery),
             deliveredAt = None\<rparr>
      in (delivery, s\<lparr>deliveries := Map_set ident delivery (deliveries s)\<rparr>))"

text \<open>
  \<^verbatim>\<open>{ ...delivery, ...data, deliveredAt: c ? new Date() : delivery.deliveredAt }\<close>: the
  two spreads first, then the explicit \<^verbatim>\<open>deliveredAt\<close>, which overrides what they set.
  A \<^verbatim>\<open>Date\<close> object is truthy, so \<^verbatim>\<open>!delivery.deliveredAt\<close> holds for \<^verbatim>\<open>null\<close> only.
\<close>

definition merge_delivery :: "Date \<Rightarrow> Delivery \<Rightarrow> DeliveryPatch \<Rightarrow> Delivery" where
  "merge_delivery now delivery d =
     (let spreads =
            delivery\<lparr>delivery_orderId := spread (pd_orderId d) (delivery_orderId delivery),
                     scheduledDate := spread_prop (pd_scheduledDate d) (scheduledDate delivery),
                     scheduledTime := spread_nullable (pd_scheduledTime d) (scheduledTime delivery),
                     delivery_status := spread (pd_status d) (delivery_status delivery),
                     deliveryAddress :=
                       spread_nullable (pd_deliveryAddress d) (deliveryAddress delivery),
                     driverName := spread_nullable (pd_driverName d) (driverName delivery),
                     vehiclePlate := spread_nullable (pd_vehiclePlate d) (vehiclePlate delivery),
                     delivery_notes := spread_nullable (pd_notes d) (delivery_notes delivery),
                     deliveredAt := spread_nullable (pd_deliveredAt d) (deliveredAt delivery)\<rparr>
      in spreads\<lparr>deliveredAt :=
                   (if pd_status d = Some ''delivered'' \<and> deliveredAt delivery = None
                    then Some now else deliveredAt delivery)\<rparr>)"

definition updateDelivery ::
  "Date \<Rightarrow> uuid \<Rightarrow> DeliveryPatch \<Rightarrow> MemStorage \<Rightarrow> Delivery option \<times> MemStorage" where
  "updateDelivery now ident data s =
     (case Map_get (deliveries s) ident of
        None \<Rightarrow> (None, s)
      | Some delivery \<Rightarrow>
          (let updated = merge_delivery now delivery data
           in (Some updated, s\<lparr>deliveries := Map_set ident updated (deliveries s)\<rparr>)))"

subsection \<open>Dashboard\<close>

text \<open>
  \<^verbatim>\<open>o.totalValue?.toString() || "0"\<close> is \<open>or_default (totalValue o) ''0''\<close>. The sum is
  the \<^verbatim>\<open>reduce\<close> from \<^verbatim>\<open>0\<close>, left to right. \<^verbatim>\<open>startOfMonth\<close> is made from the year and
  the month of \<^verbatim>\<open>today\<close>.
\<close>

definition getDashboardStats ::
  "'n Number_ops \<Rightarrow> Calendar \<Rightarrow> Date \<Rightarrow> MemStorage \<Rightarrow> 'n DashboardStats" where
  "getDashboardStats N cal now s =
     (let ords = Map_values (orders s);
          cls = Map_values (clients s);
          today = setHours0 cal now;
          todays = filter (scheduledToday cal now) (Map_values (deliveries s));
          startOfMonth = newDate cal (getFullYear cal today) (getMonth cal today) 1;
          monthlyOrders = filter (\<lambda>ord. startOfMonth \<le> createdAt ord) ords
      in \<lparr>pendingOrders = length (filter (\<lambda>ord. order_status ord = ''pending'') ords),
          todayDeliveries = length todays,
          activeClients = length (filter (\<lambda>c. client_active c = Some True) cls),
          monthlyValue =
            foldl (\<lambda>sum ord.
                     plus_number N sum (parseFloat N (or_default (totalValue ord) ''0'')))
              (zero_number N) monthlyOrders\<rparr>)"

subsection \<open>The constructor and its seed data\<close>

text \<open>The characters outside ASCII that the seed strings use, by their code unit.\<close>

definition a_tilde :: string where "a_tilde = [CHR 0xE3]"
definition o_tilde :: string where "o_tilde = [CHR 0xF5]"
definition e_acute :: string where "e_acute = [CHR 0xE9]"
definition i_acute :: string where "i_acute = [CHR 0xED]"
definition o_acute :: string where "o_acute = [CHR 0xF3]"
definition c_cedilla :: string where "c_cedilla = [CHR 0xE7]"
definition superscript3 :: string where "superscript3 = [CHR 0xB3]"
definition ordinal_o :: string where "ordinal_o = [CHR 0xBA]"

definition sao_paulo :: string where
  "sao_paulo = ''S'' @ a_tilde @ ''o Paulo''"

definition productNames :: "string list" where
  "productNames =
     [''Areia M'' @ e_acute @ ''dia'',
      ''Areia Fina'',
      ''Areia Grossa'',
      ''Areia M'' @ e_acute @ ''dia Grossa'',
      ''Areia M'' @ e_acute @ ''dia Fina'',
      ''Brita 1'',
      ''Brita 2'',
      ''Brita 3'',
      ''Brita 4'',
      ''Rach'' @ a_tilde @ ''o'',
      ''BGS'',
      ''Pedrisco Limpo'',
      ''P'' @ o_acute @ '' de Pedra'',
      ''Rach'' @ a_tilde @ ''o Reciclado'',
      ''Areia Desclassificada'',
      ''Argila Expandida'',
      ''Bica Reciclada'',
      ''Brita Reciclada'',
      ''Brita 1 Reciclada'',
      ''Brita 2 Reciclada'',
      ''Brita 3 Reciclada'',
      ''Brita 4 Reciclada'',
      ''Areia De Quadra'']"

definition seedClient1 :: "uuid \<Rightarrow> Client" where
  "seedClient1 ident =
     \<lparr>client_type = ''PJ'', client_name = ''Construtora ABC Ltda'',
      tradeName = Value ''Construtora ABC'', document = ''12345678000199'',
      stateRegistration = Value ''123456789'',
      email = Value ''contato@construtorabc.com.br'',
      phone = Value ''(11) 3333-4444'', cellphone = Value ''(11) 99999-8888'',
      zipCode = Value ''01310-100'', street = Value ''Av. Paulista'',
      client_number = Value ''1000'', complement = Value ''Sala 501'',
      neighborhood = Value ''Bela Vista'', city = Value sao_paulo,
      client_state = Value ''SP'', client_notes = Value ''Cliente desde 2020'',
      client_active = Some True, client_id = ident\<rparr>"

definition seedClient2 :: "uuid \<Rightarrow> Client" where
  "seedClient2 ident =
     \<lparr>client_type = ''PJ'', client_name = ''Incorporadora XYZ S/A'',
      tradeName = Value (''XYZ Incorpora'' @ c_cedilla @ o_tilde @ ''es''),
      document = ''98765432000188'',
      stateRegistration = Value ''987654321'',
      email = Value ''comercial@xyz.com.br'',
      phone = Value ''(11) 2222-3333'', cellphone = Value ''(11) 98888-7777'',
      zipCode = Value ''04543-011'', street = Value ''Rua Funchal'',
      client_number = Value ''418'', complement = Value (''10'' @ ordinal_o @ '' andar''),
      neighborhood = Value (''Vila Ol'' @ i_acute @ ''mpia''), city = Value sao_paulo,
      client_state = Value ''SP'', client_notes = Value ''Grande volume mensal'',
      client_active = Some True, client_id = ident\<rparr>"

definition seedClient3 :: "uuid \<Rightarrow> Client" where
  "seedClient3 ident =
     \<lparr>client_type = ''PF'', client_name = ''Jo'' @ a_tilde @ ''o da Silva'',
      tradeName = Null, document = ''12345678901'',
      stateRegistration = Null,
      email = Value ''joao.silva@email.com'',
      phone = Null, cellphone = Value ''(11) 97777-6666'',
      zipCode = Value ''03102-000'', street = Value ''Rua das Flores'',
      client_number = Value ''123'', complement = Null,
      neighborhood = Value ''Mooca'', city = Value sao_paulo,
      client_state = Value ''SP'', client_notes = Null,
      client_active = Some True, client_id = ident\<rparr>"

definition addressPaulista :: string where
  "addressPaulista = ''Av. Paulista, 1000 - Bela Vista, '' @ sao_paulo @ ''/SP''"

definition addressFunchal :: string where
  "addressFunchal =
     ''Rua Funchal, 418 - Vila Ol'' @ i_acute @ ''mpia, '' @ sao_paulo @ ''/SP''"

text \<open>
  \<^verbatim>\<open>seedData\<close> calls \<^verbatim>\<open>randomUUID()\<close> 39 times: \<open>uuid k\<close> is the value of call \<open>k\<close>.
  \<open>now\<close> is the reading of \<^verbatim>\<open>new Date()\<close>; \<^verbatim>\<open>yesterday\<close> and \<^verbatim>\<open>twoDaysAgo\<close> are
  \<open>setDatePlus cal (- 1) now\<close> and \<open>setDatePlus cal (- 2) now\<close>.
\<close>

definition seedSuppliers :: "(nat \<Rightarrow> uuid) \<Rightarrow> Supplier js_map \<Rightarrow> Supplier js_map" where
  "seedSuppliers uuid m =
     Map_set (uuid 1) \<lparr>supplier_id = uuid 1, supplier_name = ''Ferrovia'', supplier_active = True\<rparr>
       (Map_set (uuid 0)
          \<lparr>supplier_id = uuid 0, supplier_name = ''Nova Arei'' @ a_tilde @ ''o'',
           supplier_active = True\<rparr> m)"

definition seedProducts :: "(nat \<Rightarrow> uuid) \<Rightarrow> Product js_map \<Rightarrow> Product js_map" where
  "seedProducts uuid m =
     fold (\<lambda>(k, name).
             Map_set (uuid (2 + k))
               \<lparr>product_id = uuid (2 + k), product_name = name,
                unit = ''m'' @ superscript3, product_active = True\<rparr>)
       (enumerate 0 productNames) m"

definition seedClients :: "(nat \<Rightarrow> uuid) \<Rightarrow> Client js_map \<Rightarrow> Client js_map" where
  "seedClients uuid m =
     Map_set (uuid 27) (seedClient3 (uuid 27))
       (Map_set (uuid 26) (seedClient2 (uuid 26))
          (Map_set (uuid 25) (seedClient1 (uuid 25)) m))"

definition seedOrders ::
  "Calendar \<Rightarrow> (nat \<Rightarrow> uuid) \<Rightarrow> Date \<Rightarrow> Order js_map \<Rightarrow> Order js_map" where
  "seedOrders cal uuid now m =
     Map_set (uuid 33)
       \<lparr>order_id = uuid 33, orderNumber = 1000 + 1 + 1 + 1, clientId = Some (uuid 25),
        supplierId = Some (uuid 0), order_status = ''delivered'', totalValue = Some ''2100.00'',
        order_notes = None, createdAt = setDatePlus cal (- 2) now\<rparr>
       (Map_set (uuid 30)
          \<lparr>order_id = uuid 30, orderNumber = 1000 + 1 + 1, clientId = Some (uuid 26),
           supplierId = Some (uuid 1), order_status = ''confirmed'', totalValue = Some ''8750.00'',
           order_notes = None, createdAt = setDatePlus cal (- 1) now\<rparr>
          (Map_set (uuid 28)
             \<lparr>order_id = uuid 28, orderNumber = 1000 + 1, clientId = Some (uuid 25),
              supplierId = Some (uuid 0), order_status = ''pending'', totalValue = Some ''4500.00'',
              order_notes = Some ''Entrega urgente'', createdAt = now\<rparr> m))"

definition seedOrderItems :: "(nat \<Rightarrow> uuid) \<Rightarrow> OrderItem js_map \<Rightarrow> OrderItem js_map" where
  "seedOrderItems uuid m =
     Map_set (uuid 34)
       \<lparr>item_orderId = uuid 33, productId = uuid (2 + 1), quantity = ''14'',
        unitPrice = ''150.00'', totalPrice = ''2100.00'', item_id = uuid 34\<rparr>
       (Map_set (uuid 32)
          \<lparr>item_orderId = uuid 30, productId = uuid (2 + 6), quantity = ''15'',
           unitPrice = ''250.00'', totalPrice = ''3750.00'', item_id = uuid 32\<rparr>
          (Map_set (uuid 31)
             \<lparr>item_orderId = uuid 30, productId = uuid (2 + 5), quantity = ''25'',
              unitPrice = ''200.00'', totalPrice = ''5000.00'', item_id = uuid 31\<rparr>
             (Map_set (uuid 29)
                \<lparr>item_orderId = uuid 28, productId = uuid (2 + 0), quantity = ''30'',
                 unitPrice = ''150.00'', totalPrice = ''4500.00'', item_id = uuid 29\<rparr> m)))"

definition seedDeliveries ::
  "Calendar \<Rightarrow> (nat \<Rightarrow> uuid) \<Rightarrow> Date \<Rightarrow> Delivery js_map \<Rightarrow> Delivery js_map" where
  "seedDeliveries cal uuid now m =
     Map_set (uuid 37)
       \<lparr>delivery_id = uuid 37, delivery_orderId = uuid 33,
        scheduledDate = Some (Time (setDatePlus cal (- 2) now)), scheduledTime = Some ''10:30'',
        delivery_status = ''delivered'', deliveryAddress = Some addressPaulista,
        driverName = Some ''Carlos Oliveira'', vehiclePlate = Some ''ABC-1234'',
        delivery_notes = None, deliveredAt = Some (setDatePlus cal (- 2) now)\<rparr>
       (Map_set (uuid 36)
          \<lparr>delivery_id = uuid 36, delivery_orderId = uuid 30,
           scheduledDate = Some (Time now), scheduledTime = Some ''09:00'',
           delivery_status = ''in_transit'', deliveryAddress = Some addressFunchal,
           driverName = Some ''Roberto Santos'', vehiclePlate = Some ''XYZ-5678'',
           delivery_notes = None, deliveredAt = None\<rparr>
          (Map_set (uuid 35)
             \<lparr>delivery_id = uuid 35, delivery_orderId = uuid 28,
              scheduledDate = Some (Time now), scheduledTime = Some ''14:00'',
              delivery_status = ''pending'', deliveryAddress = Some addressPaulista,
              driverName = Some ''Carlos Oliveira'', vehiclePlate = Some ''ABC-1234'',
              delivery_notes = Some (''Entrar pela portaria de servi'' @ c_cedilla @ ''o''),
              deliveredAt = None\<rparr> m))"

definition seedInvoices ::
  "Calendar \<Rightarrow> (nat \<Rightarrow> uuid) \<Rightarrow> Date \<Rightarrow> Invoice js_map \<Rightarrow> Invoice js_map" where
  "seedInvoices cal uuid now m =
     Map_set (uuid 38)
       \<lparr>invoice_id = uuid 38, invoice_orderId = uuid 33, invoiceNumber = ''000123'',
        series = Some ''1'', issueDate = Time (setDatePlus cal (- 2) now), invoice_value = Some ''2100.00'',
        invoice_notes = None\<rparr> m"

definition seedData ::
  "Calendar \<Rightarrow> (nat \<Rightarrow> uuid) \<Rightarrow> Date \<Rightarrow> MemStorage \<Rightarrow> MemStorage" where
  "seedData cal uuid now s =
     s\<lparr>suppliers := seedSuppliers uuid (suppliers s),
       products := seedProducts uuid (products s),
       clients := seedClients uuid (clients s),
       orderCounter := 1000 + 1 + 1 + 1,
       orders := seedOrders cal uuid now (orders s),
       orderItems := seedOrderItems uuid (orderItems s),
       deliveries := seedDeliveries cal uuid now (deliveries s),
       invoices := seedInvoices cal uuid now (invoices s)\<rparr>"

text \<open>\<^verbatim>\<open>new MemStorage()\<close>: empty maps, the counter at 1000, then the seed data.\<close>

definition MemStorage_new :: "Calendar \<Rightarrow> (nat \<Rightarrow> uuid) \<Rightarrow> Date \<Rightarrow> MemStorage" where
  "MemStorage_new cal uuid now = seedData cal uuid now MemStorage_empty"

subsection \<open>Sequences of calls\<close>

text \<open>
  A mutating call of the storage interface, with what the platform supplied to it.
\<close>

datatype call =
    CreateUser uuid InsertUser
  | CreateClient uuid InsertClient
  | UpdateClient uuid ClientPatch
  | DeleteClient uuid
  | CreateOrder "nat \<Rightarrow> uuid" Date OrderPatch "InsertOrderItem list"
  | UpdateOrder uuid OrderPatch
  | DeleteOrder uuid
  | CreateDelivery uuid InsertDelivery
  | UpdateDelivery Date uuid DeliveryPatch
  | CreateInvoice uuid InsertInvoice

fun exec :: "call \<Rightarrow> MemStorage \<Rightarrow> MemStorage" where
  "exec (CreateUser i u) s = snd (createUser i u s)"
| "exec (CreateClient i c) s = snd (createClient i c s)"
| "exec (UpdateClient i d) s = snd (updateClient i d s)"
| "exec (DeleteClient i) s = snd (deleteClient i s)"
| "exec (CreateOrder u t d its) s = snd (createOrder u t d its s)"
| "exec (UpdateOrder i d) s = snd (updateOrder i d s)"
| "exec (DeleteOrder i) s = snd (deleteOrder i s)"
| "exec (CreateDelivery i d) s = snd (createDelivery i d s)"
| "exec (UpdateDelivery t i d) s = snd (updateDelivery t i d s)"
| "exec (CreateInvoice i v) s = snd (createInvoice i v s)"

definition run :: "call list \<Rightarrow> MemStorage \<Rightarrow> MemStorage" where
  "run cs s = fold exec cs s"


text \<open>
  The invariant of the maps: every record is stored under its own \<^verbatim>\<open>id\<close>, and a key
  occurs once.
\<close>

definition keyed :: "('v \<Rightarrow> uuid) \<Rightarrow> 'v js_map \<Rightarrow> bool" where
  "keyed ident m \<longleftrightarrow> list_all (\<lambda>kv. ident (snd kv) = fst kv) m \<and> distinct (map fst m)"

definition wf_storage :: "MemStorage \<Rightarrow> bool" where
  "wf_storage s \<longleftrightarrow>
     keyed user_id (users s) \<and> keyed client_id (clients s) \<and>
     keyed order_id (orders s) \<and> keyed item_id (orderItems s) \<and>
     keyed delivery_id (deliveries s) \<and> keyed invoice_id (invoices s)"

subsection \<open>A concrete calendar and a concrete storage\<close>

text \<open>
  One calendar for the examples: a zone whose local time is always \<open>tz\<close> minutes behind
  UTC, with the proleptic Gregorian calendar (eras of 400 years, years starting in
  March). The methods above take any calendar; this one has no daylight-saving
  transition.
\<close>

definition msPerDay :: int where
  "msPerDay = 86400000"

text \<open>Year, month (1 to 12) and day of the month of a number of days since 1970-01-01.\<close>

definition civil_from_days :: "int \<Rightarrow> int \<times> int \<times> int" where
  "civil_from_days days =
     (let z = days + 719468;
          era = z div 146097;
          doe = z mod 146097;
          yoe = (doe - doe div 1460 + doe div 36524 - doe div 146096) div 365;
          doy = doe - (365 * yoe + yoe div 4 - yoe div 100);
          mp = (5 * doy + 2) div 153;
          d = doy - (153 * mp + 2) div 5 + 1;
          m = (if mp < 10 then mp + 3 else mp - 9);
          y = yoe + era * 400
      in (if m \<le> 2 then y + 1 else y, m, d))"

text \<open>The number of days since 1970-01-01 of a year, a month (1 to 12) and a day.\<close>

definition days_from_civil :: "int \<Rightarrow> int \<Rightarrow> int \<Rightarrow> int" where
  "days_from_civil y m d =
     (let y1 = (if m \<le> 2 then y - 1 else y);
          era = y1 div 400;
          yoe = y1 mod 400;
          doy = (153 * (if 2 < m then m - 3 else m + 9) + 2) div 5 + d - 1;
          doe = yoe * 365 + yoe div 4 - yoe div 100 + doy
      in era * 146097 + doe - 719468)"

text \<open>
  \<^verbatim>\<open>new Date(y, m, d)\<close> takes a year from 0 to 99 as a year of the twentieth century and
  carries a month outside 0 to 11, or a day outside the month, over.
\<close>

definition fixed_offset :: "int \<Rightarrow> Calendar" where
  "fixed_offset tz =
     \<lparr>setHours0 = (\<lambda>t. t - (t - tz * 60000) mod msPerDay),
      setDatePlus = (\<lambda>n t. t + n * msPerDay),
      getFullYear = (\<lambda>t. fst (civil_from_days ((t - tz * 60000) div msPerDay))),
      getMonth = (\<lambda>t. fst (snd (civil_from_days ((t - tz * 60000) div msPerDay))) - 1),
      newDate = (\<lambda>y m d.
        let y1 = (if 0 \<le> y \<and> y \<le> 99 then 1900 + y else y);
            months = y1 * 12 + m
        in (days_from_civil (months div 12) (months mod 12 + 1) 1 + (d - 1)) * msPerDay
           + tz * 60000)\<rparr>"

text \<open>
  A second calendar: a zone that is \<open>tz1\<close> minutes behind UTC before the instant
  \<open>change\<close> and \<open>tz2\<close> minutes from then on, as on the day when daylight-saving time
  ends. A local time that occurs twice is taken as its first occurrence.
\<close>

definition zone_offset :: "int \<Rightarrow> int \<Rightarrow> Date \<Rightarrow> Date \<Rightarrow> int" where
  "zone_offset tz1 tz2 change t = (if t < change then tz1 else tz2) * 60000"

definition zone_instant :: "int \<Rightarrow> int \<Rightarrow> Date \<Rightarrow> int \<Rightarrow> Date" where
  "zone_instant tz1 tz2 change local =
     (if local + tz1 * 60000 < change then local + tz1 * 60000 else local + tz2 * 60000)"

definition zone_local :: "int \<Rightarrow> int \<Rightarrow> Date \<Rightarrow> Date \<Rightarrow> int" where
  "zone_local tz1 tz2 change t = t - zone_offset tz1 tz2 change t"

definition changing_offset :: "int \<Rightarrow> int \<Rightarrow> Date \<Rightarrow> Calendar" where
  "changing_offset tz1 tz2 change =
     \<lparr>setHours0 = (\<lambda>t.
        let local = zone_local tz1 tz2 change t
        in zone_instant tz1 tz2 change (local - local mod msPerDay)),
      setDatePlus = (\<lambda>n t.
        zone_instant tz1 tz2 change (zone_local tz1 tz2 change t + n * msPerDay)),
      getFullYear = (\<lambda>t. fst (civil_from_days (zone_local tz1 tz2 change t div msPerDay))),
      getMonth = (\<lambda>t.
        fst (snd (civil_from_days (zone_local tz1 tz2 change t div msPerDay))) - 1),
      newDate = (\<lambda>y m d.
        let y1 = (if 0 \<le> y \<and> y \<le> 99 then 1900 + y else y);
            months = y1 * 12 + m
        in zone_instant tz1 tz2 change
             ((days_from_civil (months div 12) (months mod 12 + 1) 1 + (d - 1)) * msPerDay))\<rparr>"

text \<open>
  New York around 2026-11-01: four hours behind UTC until 06:00 UTC of that day, five
  hours from then on. The clock reads 12:00 local time of that day, and a delivery is
  scheduled for 00:30 local time of it.
\<close>

definition new_york :: Calendar where
  "new_york = changing_offset 240 300 1793512800000"

definition new_york_noon :: Date where
  "new_york_noon = 1793552400000"

text \<open>
  The storage that the constructor builds when \<^verbatim>\<open>randomUUID()\<close> returns the ids
  \<open>demo_uuid 0\<close>, \<open>demo_uuid 1\<close>, ... and the clock reads 2026-11-02 12:00 in a zone three
  hours behind UTC.
\<close>

definition demo_uuid :: "nat \<Rightarrow> uuid" where
  "demo_uuid k = ''uuid-'' @ replicate k (CHR ''i'')"

definition demo_calendar :: Calendar where
  "demo_calendar = fixed_offset 180"

definition demo_now :: Date where
  "demo_now = 1793631600000"

definition demo_storage :: MemStorage where
  "demo_storage = MemStorage_new demo_calendar demo_uuid demo_now"

text \<open>A delivery for an order id that no order has: \<^verbatim>\<open>createDelivery\<close> does not look it up.\<close>

definition orphan_delivery :: InsertDelivery where
  "orphan_delivery =
     \<lparr>id_orderId = ''no-such-order'', id_scheduledDate = Time (demo_now + 3600000),
      id_scheduledTime = Missing, id_status = None, id_deliveryAddress = Missing,
      id_driverName = Missing, id_vehiclePlate = Missing, id_notes = Missing,
      id_deliveredAt = Missing\<rparr>"

definition orphan_storage :: MemStorage where
  "orphan_storage = snd (createDelivery ''uuid-orphan'' orphan_delivery demo_storage)"

subsection \<open>Sequences of \<^verbatim>\<open>updateDelivery\<close> calls\<close>

text \<open>A call is the reading of the clock, the id and the patch.\<close>

definition updateDeliveries ::
  "(Date \<times> uuid \<times> DeliveryPatch) list \<Rightarrow> MemStorage \<Rightarrow> MemStorage" where
  "updateDeliveries cs s =
     fold (\<lambda>(now, ident, data) s'. snd (updateDelivery now ident data s')) cs s"

text \<open>
  In the words of the specification: the time of the first call in the sequence that
  updates delivery \<open>i\<close> with status \<^verbatim>\<open>"delivered"\<close>.
\<close>

fun firstDelivered :: "uuid \<Rightarrow> (Date \<times> uuid \<times> DeliveryPatch) list \<Rightarrow> Date option" where
  "firstDelivered i [] = None"
| "firstDelivered i ((now, ident, data) # cs) =
     (if ident = i \<and> pd_status data = Some ''delivered'' then Some now
      else firstDelivered i cs)"

text \<open>A patch that sets the status to delivered and tries to set \<^verbatim>\<open>deliveredAt\<close> to the epoch.\<close>

definition delivered_patch :: DeliveryPatch where
  "delivered_patch =
     \<lparr>pd_orderId = None, pd_scheduledDate = Absent, pd_scheduledTime = Missing,
      pd_status = Some ''delivered'', pd_deliveryAddress = Missing, pd_driverName = Missing,
      pd_vehiclePlate = Missing, pd_notes = Missing, pd_deliveredAt = Value 0\<rparr>"

definition demo_updates :: "(Date \<times> uuid \<times> DeliveryPatch) list" where
  "demo_updates =
     [(demo_now + 1, demo_uuid 36, delivered_patch),
      (demo_now + 2, demo_uuid 35, delivered_patch\<lparr>pd_status := Some ''in_transit''\<rparr>),
      (demo_now + 3, demo_uuid 35, delivered_patch),
      (demo_now + 4, demo_uuid 35, delivered_patch\<lparr>pd_status := None\<rparr>),
      (demo_now + 5, demo_uuid 35, delivered_patch)]"

subsection \<open>Ordering of the lists\<close>

text \<open>
  In the words of the specification: sorted by a timestamp, descending (newest first).
\<close>

definition newestFirst :: "('a \<Rightarrow> Date) \<Rightarrow> 'a list \<Rightarrow> bool" where
  "newestFirst key xs = sorted_wrt (\<lambda>a b. key b \<le> key a) xs"

text \<open>A delivery for 13:00 of the same day, created after the seeded ones.\<close>

definition late_delivery :: InsertDelivery where
  "late_delivery =
     \<lparr>id_orderId = demo_uuid 28, id_scheduledDate = Time (demo_now + 3600000),
      id_scheduledTime = Value ''13:00'', id_status = None, id_deliveryAddress = Missing,
      id_driverName = Missing, id_vehiclePlate = Missing, id_notes = Missing,
      id_deliveredAt = Missing\<rparr>"

definition late_storage :: MemStorage where
  "late_storage = snd (createDelivery ''uuid-late'' late_delivery demo_storage)"

subsection \<open>Calls that leave the display numbers alone\<close>



definition empty_order_patch :: OrderPatch where
  "empty_order_patch =
     \<lparr>po_orderNumber = None, po_clientId = None, po_supplierId = None, po_status = None,
      po_totalValue = Absent, po_notes = Missing\<rparr>"

definition new_uuid :: "nat \<Rightarrow> uuid" where
  "new_uuid k = ''uuid-new-'' @ replicate k (CHR ''i'')"



subsection \<open>Inputs for the deliveries of a day and the dashboard\<close>

definition boundary_delivery :: "Date \<Rightarrow> InsertDelivery" where
  "boundary_delivery t =
     \<lparr>id_orderId = demo_uuid 28, id_scheduledDate = Time t,
      id_scheduledTime = Missing, id_status = None, id_deliveryAddress = Missing,
      id_driverName = Missing, id_vehiclePlate = Missing, id_notes = Missing,
      id_deliveredAt = Missing\<rparr>"

text \<open>
  Deliveries for 23:59 of the day before \<open>demo_now\<close>, for 00:00 of its day and for 00:00
  of the next day, local time.
\<close>

definition boundary_storage :: MemStorage where
  "boundary_storage =
     run [CreateDelivery ''uuid-eve'' (boundary_delivery (1793588400000 - 60000)),
          CreateDelivery ''uuid-midnight'' (boundary_delivery 1793588400000),
          CreateDelivery ''uuid-next'' (boundary_delivery (1793588400000 + 86400000))]
       demo_storage"

definition new_york_storage :: MemStorage where
  "new_york_storage =
     snd (createDelivery ''uuid-early''
            (boundary_delivery 1793507400000)
            (MemStorage_new new_york demo_uuid new_york_noon))"

text \<open>Numbers as the list of the parsed strings, in the order they are added.\<close>

definition symbolic_numbers :: "string list Number_ops" where
  "symbolic_numbers = \<lparr>parseFloat = (\<lambda>s. [s]), plus_number = (@), zero_number = []\<rparr>"

text \<open>A client as \<^verbatim>\<open>insertClientSchema\<close> accepts it, without the optional properties.\<close>

definition client_without_active :: InsertClient where
  "client_without_active =
     \<lparr>client_type = ''PF'', client_name = ''Maria Souza'', tradeName = Missing,
      document = ''98765432100'', stateRegistration = Missing, email = Missing,
      phone = Missing, cellphone = Missing, zipCode = Missing, street = Missing,
      client_number = Missing, complement = Missing, neighborhood = Missing, city = Missing,
      client_state = Missing, client_notes = Missing, client_active = None\<rparr>"

subsection \<open>The words of the specification about days and months\<close>

text \<open>The scheduled date is a date in the half-open interval from \<open>lo\<close> to \<open>hi\<close>.\<close>

definition scheduledWithin :: "Date \<Rightarrow> Date \<Rightarrow> Delivery \<Rightarrow> bool" where
  "scheduledWithin lo hi d =
     (case scheduledDate d of Some (Time t) \<Rightarrow> lo \<le> t \<and> t < hi | _ \<Rightarrow> False)"

text \<open>
  The first day of the current calendar month: local midnight of day 1 of the year and
  the month of the call.
\<close>

definition firstOfMonth :: "Calendar \<Rightarrow> Date \<Rightarrow> Date" where
  "firstOfMonth cal now = newDate cal (getFullYear cal now) (getMonth cal now) 1"

text \<open>What an order adds to the monthly value: zero when it has no total value.\<close>

definition contribution :: "'n Number_ops \<Rightarrow> Order \<Rightarrow> 'n" where
  "contribution N ord =
     (case totalValue ord of
        None \<Rightarrow> zero_number N
      | Some v \<Rightarrow> if v = [] then zero_number N else parseFloat N v)"

text \<open>
  A stand-in for the numbers in the examples: an amount with at most two decimals, in
  cents.
\<close>

definition digits_value :: "string \<Rightarrow> int" where
  "digits_value ds = foldl (\<lambda>a c. 10 * a + (int (of_char c) - 48)) 0 ds"

definition parse_cents :: "string \<Rightarrow> int" where
  "parse_cents v =
     (let whole = takeWhile (\<lambda>c. c \<noteq> CHR ''.'') v;
          frac = take 2 (drop 1 (dropWhile (\<lambda>c. c \<noteq> CHR ''.'') v))
      in digits_value whole * 100 + digits_value (frac @ replicate (2 - length frac) (CHR ''0'')))"

definition cents :: "int Number_ops" where
  "cents = \<lparr>parseFloat = parse_cents, plus_number = (+), zero_number = 0\<rparr>"

text \<open>
  The patch that server/routes.ts builds from the body \<^verbatim>\<open>{ "status": "in_transit" }\<close>:
  it has the key \<^verbatim>\<open>scheduledDate\<close>, with the value \<^verbatim>\<open>undefined\<close>.
\<close>

definition route_patch :: DeliveryPatch where
  "route_patch =
     \<lparr>pd_orderId = None, pd_scheduledDate = Undefined, pd_scheduledTime = Missing,
      pd_status = Some ''in_transit'', pd_deliveryAddress = Missing, pd_driverName = Missing,
      pd_vehiclePlate = Missing, pd_notes = Missing, pd_deliveredAt = Missing\<rparr>"

text \<open>
  The first seeded order loses its total value, the second gets an empty one, the second
  seeded delivery loses its date, and an order of 100.50 is created.
\<close>

definition dashboard_storage :: MemStorage where
  "dashboard_storage =
     run [UpdateOrder (demo_uuid 28) (empty_order_patch\<lparr>po_totalValue := Undefined\<rparr>),
          UpdateOrder (demo_uuid 30) (empty_order_patch\<lparr>po_totalValue := Present []\<rparr>),
          UpdateDelivery (demo_now + 1) (demo_uuid 36) route_patch,
          CreateOrder new_uuid (demo_now + 2)
            (empty_order_patch\<lparr>po_totalValue := Present ''100.50''\<rparr>) []]
       demo_storage"

section \<open>Properties\<close>

subsection \<open>Maps and arrays\<close>

lemma Map_get_set: "Map_get (Map_set k v m) k' = (if k' = k then Some v else Map_get m k')"
  by (simp add: Map_get_def Map_set_def update_conv')

lemma Map_has_get: "Map_has m k \<longleftrightarrow> Map_get m k \<noteq> None"
  by (simp add: Map_has_def Map_get_def map_of_eq_None_iff)

text \<open>
  On elements whose keys are all numbers, sorting with the comparator \<open>key b - key a\<close> is
  the stable sort by descending key.
\<close>

lemma insert_by_valid:
  assumes "g x = Some (f x)" and "\<And>y. y \<in> set ys \<Longrightarrow> g y = Some (f y)"
  shows "insert_by (\<lambda>a b. minus_number (g b) (g a)) x ys = insort_key (\<lambda>x. - f x) x ys"
  using assms by (induction ys) auto

lemma Array_sort_valid:
  assumes "\<And>x. x \<in> set xs \<Longrightarrow> g x = Some (f x)"
  shows "Array_sort (\<lambda>a b. minus_number (g b) (g a)) xs = sort_key (\<lambda>x. - f x) xs"
  using assms
proof (induction xs)
  case Nil
  then show ?case by (simp add: Array_sort_def)
next
  case (Cons x xs)
  have ih: "Array_sort (\<lambda>a b. minus_number (g b) (g a)) xs = sort_key (\<lambda>x. - f x) xs"
    using Cons by simp
  have "Array_sort (\<lambda>a b. minus_number (g b) (g a)) (x # xs)
      = insert_by (\<lambda>a b. minus_number (g b) (g a)) x (sort_key (\<lambda>x. - f x) xs)"
    using ih by (simp add: Array_sort_def)
  also have "\<dots> = insort_key (\<lambda>x. - f x) x (sort_key (\<lambda>x. - f x) xs)"
    using Cons.prems by (intro insert_by_valid) simp_all
  finally show ?case by (simp add: sort_key_def)
qed

lemma Array_sort_desc:
  "Array_sort (\<lambda>a b. Some (f b - f a)) xs = sort_key (\<lambda>x. - f x) xs"
  using Array_sort_valid [of xs "\<lambda>x. Some (f x)" f] by simp

lemma sorted_wrt_Array_sort:
  "sorted_wrt (\<lambda>a b. f b \<le> (f a :: int)) (Array_sort (\<lambda>a b. Some (f b - f a)) xs)"
proof -
  have "sorted (map (\<lambda>x. - f x) (sort_key (\<lambda>x. - f x) xs))"
    by (rule sorted_sort_key)
  then show ?thesis
    by (simp add: Array_sort_desc sorted_map)
qed

lemma keyed_Nil: "keyed f []"
  by (simp add: keyed_def)

lemma keyed_Map_set: "keyed f m \<Longrightarrow> f v = k \<Longrightarrow> keyed f (Map_set k v m)"
proof -
  assume a: "keyed f m" "f v = k"
  then have "list_all (\<lambda>kv. f (snd kv) = fst kv) (AList.update k v m)"
    unfolding keyed_def by (induction m) auto
  with a show ?thesis
    by (simp add: keyed_def Map_set_def distinct_update)
qed

lemma keyed_filter: "keyed f m \<Longrightarrow> keyed f (filter P m)"
  by (simp add: keyed_def list_all_iff distinct_map_filter)

lemma keyed_delete: "keyed f m \<Longrightarrow> keyed f (AList.delete k m)"
  by (simp add: AList.delete_eq keyed_filter)

lemma keyed_get: "keyed f m \<Longrightarrow> Map_get m k = Some v \<Longrightarrow> f v = k"
  by (auto simp: keyed_def Map_get_def list_all_iff dest: map_of_SomeD)

lemma delete_each_filter:
  "delete_each f xs m = filter (\<lambda>kv. fst kv \<notin> f ` set xs) m"
proof (induction xs arbitrary: m)
  case Nil
  then show ?case by (simp add: delete_each_def)
next
  case (Cons x xs)
  have "delete_each f (x # xs) m = delete_each f xs (AList.delete (f x) m)"
    by (simp add: delete_each_def Map_delete_def)
  also have "\<dots> = filter (\<lambda>kv. fst kv \<notin> f ` set xs) (AList.delete (f x) m)"
    by (rule Cons.IH)
  also have "\<dots> = filter (\<lambda>kv. fst kv \<notin> f ` set (x # xs)) m"
    by (induction m) (auto simp: AList.delete_eq)
  finally show ?case .
qed

text \<open>
  On a map that satisfies the invariant, deleting the records selected by \<open>P\<close> under
  their ids removes exactly the entries whose record satisfies \<open>P\<close>.
\<close>

lemma delete_each_keyed:
  assumes "keyed f m"
  shows "delete_each f (filter P (Map_values m)) m = filter (\<lambda>kv. \<not> P (snd kv)) m"
proof -
  have "(fst kv \<notin> f ` set (filter P (Map_values m))) = (\<not> P (snd kv))" if "kv \<in> set m" for kv
  proof -
    obtain k v where kv: "kv = (k, v)" by (cases kv)
    from that assms kv have fk: "f v = k"
      by (auto simp: keyed_def list_all_iff)
    show ?thesis
    proof
      assume a: "fst kv \<notin> f ` set (filter P (Map_values m))"
      show "\<not> P (snd kv)"
      proof
        assume "P (snd kv)"
        with that kv have "v \<in> set (filter P (Map_values m))"
          by (force simp: Map_values_def)
        with a kv fk show False by auto
      qed
    next
      assume np: "\<not> P (snd kv)"
      show "fst kv \<notin> f ` set (filter P (Map_values m))"
      proof
        assume "fst kv \<in> f ` set (filter P (Map_values m))"
        then obtain v' where v': "v' \<in> snd ` set m" "P v'" "f v' = k"
          using kv by (auto simp: Map_values_def)
        then obtain k' where k': "(k', v') \<in> set m" by auto
        with assms v' have "k' = k" by (auto simp: keyed_def list_all_iff)
        with k' that kv assms have "v' = v"
          by (metis eq_key_imp_eq_value keyed_def)
        with v' np kv show False by simp
      qed
    qed
  qed
  then have "filter (\<lambda>kv. fst kv \<notin> f ` set (filter P (Map_values m))) m
      = filter (\<lambda>kv. \<not> P (snd kv)) m"
    by (intro filter_cong refl)
  then show ?thesis
    by (simp only: delete_each_filter)
qed

lemma values_filter: "Map_values (filter (\<lambda>kv. P (snd kv)) m) = filter P (Map_values m)"
  by (simp add: Map_values_def filter_map comp_def)

lemma delete_keyed:
  assumes "keyed f m"
  shows "AList.delete k m = filter (\<lambda>kv. f (snd kv) \<noteq> k) m"
  using assms unfolding AList.delete_eq keyed_def list_all_iff
  by (intro filter_cong refl) auto

subsection \<open>\<^verbatim>\<open>deleteOrder\<close>\<close>

text \<open>What \<^verbatim>\<open>deleteOrder\<close> does to a storage that satisfies the invariant.\<close>

lemma deleteOrder_eq:
  assumes "wf_storage s"
  shows "deleteOrder oid s =
     (Map_has (orders s) oid,
      s\<lparr>orderItems := filter (\<lambda>kv. item_orderId (snd kv) \<noteq> oid) (orderItems s),
        deliveries := filter (\<lambda>kv. delivery_orderId (snd kv) \<noteq> oid) (deliveries s),
        invoices := filter (\<lambda>kv. invoice_orderId (snd kv) \<noteq> oid) (invoices s),
        orders := AList.delete oid (orders s)\<rparr>)"
proof -
  from assms have k: "keyed item_id (orderItems s)" "keyed delivery_id (deliveries s)"
    "keyed invoice_id (invoices s)"
    by (simp_all add: wf_storage_def)
  show ?thesis
    unfolding deleteOrder_def Let_def Map_delete_def
    by (simp add: delete_each_keyed [OF k(1)] delete_each_keyed [OF k(2)]
        delete_each_keyed [OF k(3)])
qed

lemma deleteOrder_children:
  assumes "wf_storage s"
  shows "Map_values (orderItems (snd (deleteOrder oid s)))
           = filter (\<lambda>item. item_orderId item \<noteq> oid) (Map_values (orderItems s))"
    and "Map_values (deliveries (snd (deleteOrder oid s)))
           = filter (\<lambda>d. delivery_orderId d \<noteq> oid) (Map_values (deliveries s))"
    and "Map_values (invoices (snd (deleteOrder oid s)))
           = filter (\<lambda>i. invoice_orderId i \<noteq> oid) (Map_values (invoices s))"
  unfolding deleteOrder_eq [OF assms]
  by (simp_all add: values_filter [of "\<lambda>x. item_orderId x \<noteq> oid"]
      values_filter [of "\<lambda>x. delivery_orderId x \<noteq> oid"]
      values_filter [of "\<lambda>x. invoice_orderId x \<noteq> oid"])

lemma deleteOrder_others:
  "users (snd (deleteOrder oid s)) = users s"
  "clients (snd (deleteOrder oid s)) = clients s"
  "products (snd (deleteOrder oid s)) = products s"
  "suppliers (snd (deleteOrder oid s)) = suppliers s"
  "orderCounter (snd (deleteOrder oid s)) = orderCounter s"
  by (simp_all add: deleteOrder_def Let_def Map_delete_def)

text \<open>
  C2. For a stored order, \<^verbatim>\<open>deleteOrder\<close> returns \<^verbatim>\<open>true\<close> and removes the order and
  exactly the order items, deliveries and invoices that refer to it: afterwards
  \<^verbatim>\<open>getOrderItems\<close>, \<^verbatim>\<open>getInvoices\<close> and the scan of the deliveries find nothing for
  the id, and the records of other orders are all still there, in their order.
\<close>

theorem deleteOrder_cascade:
  assumes "wf_storage s" and "Map_get (orders s) oid \<noteq> None"
  shows "fst (deleteOrder oid s) = True
    \<and> getOrderItems (snd (deleteOrder oid s)) oid = []
    \<and> getInvoices (snd (deleteOrder oid s)) oid = []
    \<and> deliveriesOf (snd (deleteOrder oid s)) oid = []
    \<and> getOrder (snd (deleteOrder oid s)) oid = None
    \<and> Map_values (orderItems (snd (deleteOrder oid s)))
        = filter (\<lambda>item. item_orderId item \<noteq> oid) (Map_values (orderItems s))
    \<and> Map_values (deliveries (snd (deleteOrder oid s)))
        = filter (\<lambda>d. delivery_orderId d \<noteq> oid) (Map_values (deliveries s))
    \<and> Map_values (invoices (snd (deleteOrder oid s)))
        = filter (\<lambda>i. invoice_orderId i \<noteq> oid) (Map_values (invoices s))
    \<and> Map_values (orders (snd (deleteOrder oid s)))
        = filter (\<lambda>x. order_id x \<noteq> oid) (Map_values (orders s))"
proof -
  have "keyed order_id (orders s)"
    using assms(1) by (simp add: wf_storage_def)
  then have ord: "Map_values (AList.delete oid (orders s))
      = filter (\<lambda>x. order_id x \<noteq> oid) (Map_values (orders s))"
    by (simp add: delete_keyed values_filter [of "\<lambda>x. order_id x \<noteq> oid"])
  from assms(2) have has: "Map_has (orders s) oid"
    by (simp add: Map_has_get)
  have "fst (deleteOrder oid s) = True"
    unfolding deleteOrder_eq [OF assms(1)] by (simp add: has)
  moreover have "getOrderItems (snd (deleteOrder oid s)) oid = []"
    by (simp add: getOrderItems_def deleteOrder_children [OF assms(1)])
  moreover have "getInvoices (snd (deleteOrder oid s)) oid = []"
    by (simp add: getInvoices_def deleteOrder_children [OF assms(1)])
  moreover have "deliveriesOf (snd (deleteOrder oid s)) oid = []"
    by (simp add: deliveriesOf_def deleteOrder_children [OF assms(1)])
  moreover have "getOrder (snd (deleteOrder oid s)) oid = None"
    unfolding deleteOrder_eq [OF assms(1)]
    by (simp add: getOrder_def Map_get_def delete_conv')
  moreover have "Map_values (orders (snd (deleteOrder oid s)))
      = filter (\<lambda>x. order_id x \<noteq> oid) (Map_values (orders s))"
    unfolding deleteOrder_eq [OF assms(1)] by (simp add: ord)
  ultimately show ?thesis
    using deleteOrder_children [OF assms(1), of oid] by simp
qed

theorem deleteOrder_cascade_witness:
  "wf_storage demo_storage
    \<and> Map_get (orders demo_storage) (demo_uuid 30) \<noteq> None
    \<and> fst (deleteOrder (demo_uuid 30) demo_storage) = True
    \<and> getOrderItems demo_storage (demo_uuid 30) \<noteq> []
    \<and> getOrderItems (snd (deleteOrder (demo_uuid 30) demo_storage)) (demo_uuid 30) = []
    \<and> getInvoices (snd (deleteOrder (demo_uuid 30) demo_storage)) (demo_uuid 30) = []
    \<and> deliveriesOf (snd (deleteOrder (demo_uuid 30) demo_storage)) (demo_uuid 30) = []"
proof -
  have h1: "wf_storage demo_storage"
    by code_simp
  have h2: "Map_get (orders demo_storage) (demo_uuid 30) \<noteq> None"
    by code_simp
  have h3: "getOrderItems demo_storage (demo_uuid 30) \<noteq> []"
    by code_simp
  from deleteOrder_cascade [OF h1 h2] h1 h2 h3 show ?thesis
    by simp
qed

text \<open>
  C3, as the claim states it, fails: \<^verbatim>\<open>deleteOrder\<close> runs the cascade before it
  looks for the order. After \<^verbatim>\<open>createDelivery\<close> has stored a delivery for an order id
  that no order has, \<^verbatim>\<open>deleteOrder\<close> of that id returns \<^verbatim>\<open>false\<close> and removes the
  delivery.
\<close>

theorem deleteOrder_missing_counterexample:
  "Map_get (orders orphan_storage) ''no-such-order'' = None
    \<and> fst (deleteOrder ''no-such-order'' orphan_storage) = False
    \<and> getDelivery orphan_storage ''uuid-orphan'' \<noteq> None
    \<and> getDelivery (snd (deleteOrder ''no-such-order'' orphan_storage)) ''uuid-orphan'' = None
    \<and> snd (deleteOrder ''no-such-order'' orphan_storage) \<noteq> orphan_storage"
  by code_simp

text \<open>
  C3, amended. For an id that no stored order has, \<^verbatim>\<open>deleteOrder\<close> returns \<^verbatim>\<open>false\<close>
  and leaves the orders and every map but those of the order items, deliveries and
  invoices as they are; from these three it still removes the records that refer to the
  id. The storage is unchanged exactly when there is no such record.
\<close>

theorem deleteOrder_missing:
  assumes "wf_storage s" and "Map_get (orders s) oid = None"
  shows "fst (deleteOrder oid s) = False
    \<and> orders (snd (deleteOrder oid s)) = orders s
    \<and> users (snd (deleteOrder oid s)) = users s
    \<and> clients (snd (deleteOrder oid s)) = clients s
    \<and> products (snd (deleteOrder oid s)) = products s
    \<and> suppliers (snd (deleteOrder oid s)) = suppliers s
    \<and> orderCounter (snd (deleteOrder oid s)) = orderCounter s
    \<and> Map_values (orderItems (snd (deleteOrder oid s)))
        = filter (\<lambda>item. item_orderId item \<noteq> oid) (Map_values (orderItems s))
    \<and> Map_values (deliveries (snd (deleteOrder oid s)))
        = filter (\<lambda>d. delivery_orderId d \<noteq> oid) (Map_values (deliveries s))
    \<and> Map_values (invoices (snd (deleteOrder oid s)))
        = filter (\<lambda>i. invoice_orderId i \<noteq> oid) (Map_values (invoices s))
    \<and> (snd (deleteOrder oid s) = s \<longleftrightarrow>
         getOrderItems s oid = [] \<and> deliveriesOf s oid = [] \<and> getInvoices s oid = [])"
proof -
  from assms(2) have nohas: "\<not> Map_has (orders s) oid"
    by (simp add: Map_has_get)
  then have del: "AList.delete oid (orders s) = orders s"
    by (simp add: Map_has_def)
  have r: "fst (deleteOrder oid s) = False"
    unfolding deleteOrder_eq [OF assms(1)] by (simp add: nohas)
  have o: "orders (snd (deleteOrder oid s)) = orders s"
    unfolding deleteOrder_eq [OF assms(1)] by (simp add: del)
  have none: "filter P m = m \<longleftrightarrow> filter (\<lambda>x. \<not> P x) m = []" for P and m :: "'a list"
    by (simp add: filter_id_conv filter_empty_conv)
  have "snd (deleteOrder oid s) = s \<longleftrightarrow>
      orderItems (snd (deleteOrder oid s)) = orderItems s
      \<and> deliveries (snd (deleteOrder oid s)) = deliveries s
      \<and> invoices (snd (deleteOrder oid s)) = invoices s"
    using o deleteOrder_others [of oid s] by (auto intro: MemStorage.equality)
  also have "\<dots> \<longleftrightarrow>
      getOrderItems s oid = [] \<and> deliveriesOf s oid = [] \<and> getInvoices s oid = []"
    unfolding deleteOrder_eq [OF assms(1)]
    by (simp add: getOrderItems_def deliveriesOf_def getInvoices_def Map_values_def
        filter_id_conv filter_empty_conv)
  finally have iff: "snd (deleteOrder oid s) = s \<longleftrightarrow>
      getOrderItems s oid = [] \<and> deliveriesOf s oid = [] \<and> getInvoices s oid = []" .
  show ?thesis
    using r o iff deleteOrder_others [of oid s] deleteOrder_children [OF assms(1), of oid]
    by simp
qed

theorem deleteOrder_missing_witness:
  "wf_storage demo_storage
    \<and> Map_get (orders demo_storage) ''no-such-order'' = None
    \<and> fst (deleteOrder ''no-such-order'' demo_storage) = False
    \<and> snd (deleteOrder ''no-such-order'' demo_storage) = demo_storage"
proof -
  have h1: "wf_storage demo_storage"
    by code_simp
  have h2: "Map_get (orders demo_storage) ''no-such-order'' = None"
    by code_simp
  have h3: "getOrderItems demo_storage ''no-such-order'' = []
      \<and> deliveriesOf demo_storage ''no-such-order'' = []
      \<and> getInvoices demo_storage ''no-such-order'' = []"
    by code_simp
  from deleteOrder_missing [OF h1 h2] h1 h2 h3 show ?thesis
    by simp
qed

subsection \<open>\<^verbatim>\<open>deliveredAt\<close>\<close>

lemma deliveredAt_merge:
  "deliveredAt (merge_delivery now d p) =
     (if pd_status p = Some ''delivered'' \<and> deliveredAt d = None then Some now else deliveredAt d)"
  by (simp add: merge_delivery_def Let_def)

lemma updateDelivery_get:
  "Map_get (deliveries (snd (updateDelivery now j p s))) i =
     (if j = i then map_option (\<lambda>d. merge_delivery now d p) (Map_get (deliveries s) i)
      else Map_get (deliveries s) i)"
  by (simp add: updateDelivery_def Let_def Map_get_set split: option.splits)

lemma updateDelivery_fst:
  "fst (updateDelivery now i p s) =
     map_option (\<lambda>d. merge_delivery now d p) (Map_get (deliveries s) i)"
  by (simp add: updateDelivery_def Let_def split: option.splits)

text \<open>
  C1. Take a stored delivery \<open>i\<close> and any sequence of \<^verbatim>\<open>updateDelivery\<close> calls, to this
  delivery or to others. Afterwards the delivery is still stored and its
  \<^verbatim>\<open>deliveredAt\<close> is: the value it had, when it had one; otherwise the clock reading of
  the first call that updated it with status \<^verbatim>\<open>"delivered"\<close>; otherwise still unset.
  So the first such call stamps it and no later call changes it.
\<close>

theorem deliveredAt_set_once:
  assumes "Map_get (deliveries s) i = Some d"
  shows "map_option deliveredAt (Map_get (deliveries (updateDeliveries cs s)) i) =
     Some (case deliveredAt d of Some t \<Rightarrow> Some t | None \<Rightarrow> firstDelivered i cs)"
  using assms
proof (induction cs arbitrary: s d)
  case Nil
  then show ?case by (simp add: updateDeliveries_def split: option.splits)
next
  case (Cons c cs)
  obtain now j p where c: "c = (now, j, p)" by (cases c)
  let ?s = "snd (updateDelivery now j p s)"
  have step: "updateDeliveries (c # cs) s = updateDeliveries cs ?s"
    by (simp add: updateDeliveries_def c)
  show ?case
  proof (cases "j = i")
    case True
    with Cons.prems have g: "Map_get (deliveries ?s) i = Some (merge_delivery now d p)"
      by (simp add: updateDelivery_get)
    show ?thesis
      unfolding step Cons.IH [OF g]
      by (simp add: c True deliveredAt_merge split: option.splits)
  next
    case False
    with Cons.prems have g: "Map_get (deliveries ?s) i = Some d"
      by (simp add: updateDelivery_get)
    show ?thesis
      unfolding step Cons.IH [OF g]
      by (simp add: c False split: option.splits)
  qed
qed

theorem deliveredAt_set_once_witness:
  "Map_get (deliveries demo_storage) (demo_uuid 35) \<noteq> None
    \<and> map_option deliveredAt (Map_get (deliveries demo_storage) (demo_uuid 35)) = Some None
    \<and> map_option deliveredAt
        (Map_get (deliveries (updateDeliveries demo_updates demo_storage)) (demo_uuid 35))
       = Some (Some (demo_now + 3))"
proof -
  have h: "Map_get (deliveries demo_storage) (demo_uuid 35)
      = Some (the (Map_get (deliveries demo_storage) (demo_uuid 35)))"
    by code_simp
  have a: "deliveredAt (the (Map_get (deliveries demo_storage) (demo_uuid 35))) = None"
    by code_simp
  have b: "firstDelivered (demo_uuid 35) demo_updates = Some (demo_now + 3)"
    by code_simp
  have "map_option deliveredAt
        (Map_get (deliveries (updateDeliveries demo_updates demo_storage)) (demo_uuid 35))
       = Some (Some (demo_now + 3))"
    using deliveredAt_set_once [OF h, of demo_updates] a b by simp
  moreover have "map_option deliveredAt (Map_get (deliveries demo_storage) (demo_uuid 35))
      = Some None"
    using h a by (metis option.simps(9))
  moreover have "Map_get (deliveries demo_storage) (demo_uuid 35) \<noteq> None"
    by code_simp
  ultimately show ?thesis
    by blast
qed

text \<open>
  C10. \<^verbatim>\<open>createDelivery\<close> stores \<^verbatim>\<open>deliveredAt = null\<close>, and its result does not depend on
  the \<^verbatim>\<open>deliveredAt\<close> of its input. The result of \<^verbatim>\<open>updateDelivery\<close> does not depend on
  the \<^verbatim>\<open>deliveredAt\<close> of the patch; for a stored delivery it returns and stores a
  record whose \<^verbatim>\<open>deliveredAt\<close> is the previous value or, only when the previous value
  was unset and the patch has status \<^verbatim>\<open>"delivered"\<close>, the reading of the clock.
\<close>

theorem deliveredAt_not_settable:
  "deliveredAt (fst (createDelivery i ins s)) = None
   \<and> Map_get (deliveries (snd (createDelivery i ins s))) i = Some (fst (createDelivery i ins s))
   \<and> createDelivery i (ins\<lparr>id_deliveredAt := x\<rparr>) s = createDelivery i ins s
   \<and> updateDelivery now i (p\<lparr>pd_deliveredAt := y\<rparr>) s = updateDelivery now i p s
   \<and> (Map_get (deliveries s) i = Some d \<longrightarrow>
        (\<exists>d'. fst (updateDelivery now i p s) = Some d'
           \<and> Map_get (deliveries (snd (updateDelivery now i p s))) i = Some d'
           \<and> (deliveredAt d' = deliveredAt d
               \<or> deliveredAt d = None \<and> pd_status p = Some ''delivered''
                  \<and> deliveredAt d' = Some now)))"
proof -
  have 1: "deliveredAt (fst (createDelivery i ins s)) = None"
    by (simp add: createDelivery_def Let_def)
  have 2: "Map_get (deliveries (snd (createDelivery i ins s))) i
      = Some (fst (createDelivery i ins s))"
    by (simp add: createDelivery_def Let_def Map_get_set)
  have 3: "createDelivery i (ins\<lparr>id_deliveredAt := x\<rparr>) s = createDelivery i ins s"
    by (simp add: createDelivery_def)
  have m: "merge_delivery now d0 (p\<lparr>pd_deliveredAt := y\<rparr>) = merge_delivery now d0 p" for d0
    by (simp add: merge_delivery_def Let_def)
  have 4: "updateDelivery now i (p\<lparr>pd_deliveredAt := y\<rparr>) s = updateDelivery now i p s"
    by (simp add: updateDelivery_def m split: option.splits)
  have 5: "\<exists>d'. fst (updateDelivery now i p s) = Some d'
           \<and> Map_get (deliveries (snd (updateDelivery now i p s))) i = Some d'
           \<and> (deliveredAt d' = deliveredAt d
               \<or> deliveredAt d = None \<and> pd_status p = Some ''delivered''
                  \<and> deliveredAt d' = Some now)"
    if "Map_get (deliveries s) i = Some d"
    using that by (simp add: updateDelivery_fst updateDelivery_get deliveredAt_merge)
  from 1 2 3 4 5 show ?thesis by blast
qed

theorem deliveredAt_not_settable_witness:
  "Map_get (deliveries demo_storage) (demo_uuid 35) \<noteq> None
    \<and> pd_deliveredAt delivered_patch = Value 0
    \<and> (\<exists>d'. fst (updateDelivery (demo_now + 3) (demo_uuid 35) delivered_patch demo_storage)
              = Some d'
          \<and> deliveredAt d' = Some (demo_now + 3))"
proof -
  let ?d = "the (Map_get (deliveries demo_storage) (demo_uuid 35))"
  have h: "Map_get (deliveries demo_storage) (demo_uuid 35) = Some ?d"
    by code_simp
  have a: "deliveredAt ?d = None"
    by code_simp
  have b: "pd_deliveredAt delivered_patch = Value 0"
    by (simp add: delivered_patch_def)
  from deliveredAt_not_settable
    [where i = "demo_uuid 35" and s = demo_storage and now = "demo_now + 3"
       and p = delivered_patch and d = ?d]
  have "\<exists>d'. fst (updateDelivery (demo_now + 3) (demo_uuid 35) delivered_patch demo_storage)
              = Some d'
          \<and> (deliveredAt d' = deliveredAt ?d \<or> deliveredAt d' = Some (demo_now + 3))"
    using h by blast
  moreover have "deliveredAt
      (the (fst (updateDelivery (demo_now + 3) (demo_uuid 35) delivered_patch demo_storage)))
      \<noteq> None"
    by code_simp
  ultimately show ?thesis
    using h a b by force
qed

subsection \<open>Sorted lists\<close>

lemma newestFirst_take: "newestFirst key xs \<Longrightarrow> newestFirst key (take n xs)"
  unfolding newestFirst_def by (rule sorted_wrt_take)

lemma newestFirst_getOrders: "newestFirst createdAt (getOrders s)"
  unfolding newestFirst_def getOrders_def by (rule sorted_wrt_Array_sort)

text \<open>
  \<^verbatim>\<open>getDeliveries\<close> sorts: when every stored delivery has a valid scheduled date, the
  list is sorted by it, newest first, with every delivery in it once.
\<close>

lemma getDeliveries_sorted:
  assumes "\<And>d. d \<in> set (Map_values (deliveries s)) \<Longrightarrow> getTime (scheduledDate d) \<noteq> None"
  shows "newestFirst (\<lambda>d. the (getTime (scheduledDate d))) (getDeliveries s)"
    and "mset (getDeliveries s)
      = mset (map (buildDeliveryWithDetails s) (Map_values (deliveries s)))"
proof -
  let ?f = "\<lambda>d :: DeliveryWithDetails. the (getTime (scheduledDate d))"
  have valid: "getTime (scheduledDate x) = Some (?f x)"
    if "x \<in> set (map (buildDeliveryWithDetails s) (Map_values (deliveries s)))" for x
  proof -
    from that obtain d where d: "d \<in> set (Map_values (deliveries s))"
      and x: "x = buildDeliveryWithDetails s d" by auto
    have "scheduledDate x = scheduledDate d"
      by (simp add: x buildDeliveryWithDetails_def Delivery.defs DeliveryWithDetails.defs)
    with assms [OF d] show ?thesis by auto
  qed
  have eq: "getDeliveries s
      = sort_key (\<lambda>x. - ?f x) (map (buildDeliveryWithDetails s) (Map_values (deliveries s)))"
    unfolding getDeliveries_def
    by (rule Array_sort_valid [where g = "\<lambda>d. getTime (scheduledDate d)" and f = ?f])
      (rule valid)
  have "sorted (map (\<lambda>x. - ?f x) (getDeliveries s))"
    unfolding eq by (rule sorted_sort_key)
  then show "newestFirst ?f (getDeliveries s)"
    by (simp add: newestFirst_def sorted_map)
  show "mset (getDeliveries s)
      = mset (map (buildDeliveryWithDetails s) (Map_values (deliveries s)))"
    unfolding eq by simp
qed

text \<open>
  C5 fails in \<^verbatim>\<open>getTodayDeliveries\<close>, which filters the deliveries in the order of the
  map and does not sort, as \<^verbatim>\<open>getDeliveries\<close> does. With a delivery for 13:00 created
  after the two seeded ones for 12:00 of the same day, \<^verbatim>\<open>getDeliveries\<close> has the later
  one first and \<^verbatim>\<open>getTodayDeliveries\<close> has it last.
\<close>

theorem getTodayDeliveries_not_sorted:
  "map (\<lambda>d. getTime (scheduledDate d)) (getDeliveries late_storage)
     = [Some (demo_now + 3600000), Some demo_now, Some demo_now, Some (demo_now - 172800000)]
   \<and> map (\<lambda>d. getTime (scheduledDate d)) (getTodayDeliveries demo_calendar demo_now late_storage)
     = [Some demo_now, Some demo_now, Some (demo_now + 3600000)]
   \<and> \<not> newestFirst (\<lambda>d. the (getTime (scheduledDate d)))
         (getTodayDeliveries demo_calendar demo_now late_storage)"
  by code_simp

text \<open>
  C6, as the claim states it, fails for a negative \<open>n\<close>: \<^verbatim>\<open>slice(0, -1)\<close> drops the last
  element only, so \<^verbatim>\<open>getRecentOrders(-1)\<close> returns two of the three seeded orders.
\<close>

theorem recent_negative_counterexample:
  "length (getRecentOrders demo_storage (- 1)) = 2
   \<and> \<not> int (length (getRecentOrders demo_storage (- 1))) \<le> - 1"
  by code_simp

text \<open>
  C6, amended. For \<open>n \<ge> 0\<close>, \<^verbatim>\<open>getRecentOrders(n)\<close> has at most \<open>n\<close> elements, is sorted by
  \<^verbatim>\<open>createdAt\<close>, newest first, and is the prefix of length \<open>n\<close> of \<^verbatim>\<open>getOrders()\<close>.
\<close>

theorem recent_orders_prefix:
  assumes "0 \<le> n"
  shows "int (length (getRecentOrders s n)) \<le> n
    \<and> getRecentOrders s n = take (nat n) (getOrders s)
    \<and> newestFirst createdAt (getRecentOrders s n)"
proof -
  have eq: "getRecentOrders s n = take (nat n) (getOrders s)"
    using assms by (simp add: getRecentOrders_def Array_slice0_def Let_def min_def)
  have "newestFirst createdAt (getRecentOrders s n)"
    unfolding eq by (rule newestFirst_take [OF newestFirst_getOrders])
  moreover have "int (length (getRecentOrders s n)) \<le> n"
    using assms unfolding eq by simp
  ultimately show ?thesis using eq by simp
qed

theorem recent_orders_prefix_witness:
  "(0::int) \<le> 2 \<and> map orderNumber (getRecentOrders demo_storage 2) = [1001, 1002]
    \<and> map orderNumber (getOrders demo_storage) = [1001, 1002, 1003]
    \<and> getRecentOrders demo_storage 2 = take (nat 2) (getOrders demo_storage)"
proof -
  have h: "(0::int) \<le> 2" by simp
  have a: "map orderNumber (getOrders demo_storage) = [1001, 1002, 1003]"
    by code_simp
  from recent_orders_prefix [OF h, of demo_storage]
  have b: "getRecentOrders demo_storage 2 = take (nat 2) (getOrders demo_storage)"
    by simp
  have "map orderNumber (getRecentOrders demo_storage 2)
      = take (nat 2) (map orderNumber (getOrders demo_storage))"
    unfolding b by (simp add: take_map)
  then have "map orderNumber (getRecentOrders demo_storage 2) = [1001, 1002]"
    unfolding a by (simp add: numeral_2_eq_2)
  with h a b show ?thesis by simp
qed

subsection \<open>The invariant is kept\<close>

lemma keyed_fold_set:
  "keyed f m \<Longrightarrow> (\<And>x. x \<in> set xs \<Longrightarrow> f (g x) = h x) \<Longrightarrow>
     keyed f (fold (\<lambda>x. Map_set (h x) (g x)) xs m)"
  by (induction xs arbitrary: m) (simp_all add: keyed_Map_set)

lemma wf_createUser: "wf_storage s \<Longrightarrow> wf_storage (snd (createUser i u s))"
  by (simp add: wf_storage_def createUser_def Let_def keyed_Map_set InsertUser.defs User.defs)

lemma wf_createClient: "wf_storage s \<Longrightarrow> wf_storage (snd (createClient i c s))"
  by (simp add: wf_storage_def createClient_def Let_def keyed_Map_set InsertClient.defs Client.defs)

lemma wf_updateClient: "wf_storage s \<Longrightarrow> wf_storage (snd (updateClient i d s))"
proof -
  assume wf: "wf_storage s"
  show ?thesis
  proof (cases "Map_get (clients s) i")
    case None
    with wf show ?thesis by (simp add: updateClient_def)
  next
    case (Some c)
    with wf have "client_id c = i"
      by (auto simp: wf_storage_def dest: keyed_get)
    then have "client_id (merge_client c d) = i"
      by (simp add: merge_client_def)
    with wf Some show ?thesis
      by (simp add: wf_storage_def updateClient_def Let_def keyed_Map_set)
  qed
qed

lemma wf_deleteClient: "wf_storage s \<Longrightarrow> wf_storage (snd (deleteClient i s))"
  by (simp add: wf_storage_def deleteClient_def Map_delete_def keyed_delete)

lemma wf_createOrder: "wf_storage s \<Longrightarrow> wf_storage (snd (createOrder u t d its s))"
proof -
  assume wf: "wf_storage s"
  have "keyed item_id
      (fold (\<lambda>x. Map_set (u (Suc (fst x))) (newOrderItem (u (Suc (fst x))) (u 0) (snd x)))
         (enumerate 0 its) (orderItems s))"
    using wf by (intro keyed_fold_set) (simp_all add: wf_storage_def newOrderItem_def)
  with wf show ?thesis
    by (simp add: wf_storage_def createOrder_def Let_def keyed_Map_set case_prod_unfold
        newOrder_def)
qed

lemma wf_updateOrder: "wf_storage s \<Longrightarrow> wf_storage (snd (updateOrder i d s))"
proof -
  assume wf: "wf_storage s"
  show ?thesis
  proof (cases "Map_get (orders s) i")
    case None
    with wf show ?thesis by (simp add: updateOrder_def)
  next
    case (Some c)
    with wf have "order_id c = i"
      by (auto simp: wf_storage_def dest: keyed_get)
    then have "order_id (merge_order c d) = i"
      by (simp add: merge_order_def)
    with wf Some show ?thesis
      by (simp add: wf_storage_def updateOrder_def Let_def keyed_Map_set)
  qed
qed

lemma wf_deleteOrder: "wf_storage s \<Longrightarrow> wf_storage (snd (deleteOrder i s))"
proof -
  assume wf: "wf_storage s"
  then show ?thesis
    unfolding deleteOrder_eq [OF wf]
    by (simp add: wf_storage_def keyed_filter keyed_delete)
qed

lemma wf_createDelivery: "wf_storage s \<Longrightarrow> wf_storage (snd (createDelivery i d s))"
  by (simp add: wf_storage_def createDelivery_def Let_def keyed_Map_set)

lemma wf_updateDelivery: "wf_storage s \<Longrightarrow> wf_storage (snd (updateDelivery t i d s))"
proof -
  assume wf: "wf_storage s"
  show ?thesis
  proof (cases "Map_get (deliveries s) i")
    case None
    with wf show ?thesis by (simp add: updateDelivery_def)
  next
    case (Some c)
    with wf have "delivery_id c = i"
      by (auto simp: wf_storage_def dest: keyed_get)
    then have "delivery_id (merge_delivery t c d) = i"
      by (simp add: merge_delivery_def Let_def)
    with wf Some show ?thesis
      by (simp add: wf_storage_def updateDelivery_def Let_def keyed_Map_set)
  qed
qed

lemma wf_createInvoice: "wf_storage s \<Longrightarrow> wf_storage (snd (createInvoice i d s))"
  by (simp add: wf_storage_def createInvoice_def Let_def keyed_Map_set)

lemma wf_exec: "wf_storage s \<Longrightarrow> wf_storage (exec c s)"
  by (cases c)
    (simp_all add: wf_createUser wf_createClient wf_updateClient wf_deleteClient wf_createOrder
      wf_updateOrder wf_deleteOrder wf_createDelivery wf_updateDelivery wf_createInvoice)

lemma wf_run: "wf_storage s \<Longrightarrow> wf_storage (run cs s)"
  unfolding run_def by (induction cs arbitrary: s) (simp_all add: wf_exec)

lemma wf_new: "wf_storage (MemStorage_new cal uuid now)"
  by (simp add: wf_storage_def MemStorage_new_def seedData_def MemStorage_empty_def
      seedClients_def seedOrders_def seedOrderItems_def seedDeliveries_def seedInvoices_def
      seedClient1_def seedClient2_def seedClient3_def keyed_Map_set keyed_Nil)

lemma wf_reachable: "wf_storage (run cs (MemStorage_new cal uuid now))"
  by (rule wf_run [OF wf_new])

subsection \<open>Display numbers\<close>
























subsection \<open>The deliveries of today\<close>

lemma scheduledToday_iff:
  "scheduledToday cal now d \<longleftrightarrow>
     scheduledWithin (setHours0 cal now) (setDatePlus cal 1 (setHours0 cal now)) d"
proof (cases "scheduledDate d")
  case None
  then show ?thesis by (simp add: scheduledToday_def scheduledWithin_def)
next
  case (Some x)
  then show ?thesis
    by (cases x) (simp_all add: scheduledToday_def scheduledWithin_def Let_def)
qed

text \<open>
  C7. For every calendar of the platform, \<^verbatim>\<open>getTodayDeliveries\<close> returns the detail
  views of exactly the deliveries whose scheduled date is a date from \<^verbatim>\<open>today\<close>, the
  start of the local day of the call, up to but not including \<^verbatim>\<open>tomorrow\<close>, the start
  of the next local day, in the order of the map. A delivery scheduled a minute before
  \<^verbatim>\<open>today\<close>, or at \<^verbatim>\<open>tomorrow\<close>, or without a valid date, is out; one scheduled at
  \<^verbatim>\<open>today\<close> is in (the next day starts later than the day).
\<close>

theorem today_deliveries_window:
  "getTodayDeliveries cal now s =
     map (buildDeliveryWithDetails s)
       (filter (scheduledWithin (setHours0 cal now) (setDatePlus cal 1 (setHours0 cal now)))
          (Map_values (deliveries s)))
   \<and> \<not> scheduledToday cal now (d\<lparr>scheduledDate := Some (Time (setHours0 cal now - 60000))\<rparr>)
   \<and> \<not> scheduledToday cal now
         (d\<lparr>scheduledDate := Some (Time (setDatePlus cal 1 (setHours0 cal now)))\<rparr>)
   \<and> \<not> scheduledToday cal now (d\<lparr>scheduledDate := None\<rparr>)
   \<and> \<not> scheduledToday cal now (d\<lparr>scheduledDate := Some Invalid_Date\<rparr>)
   \<and> (scheduledToday cal now (d\<lparr>scheduledDate := Some (Time (setHours0 cal now))\<rparr>)
        \<longleftrightarrow> setHours0 cal now < setDatePlus cal 1 (setHours0 cal now))"
proof -
  have "getTodayDeliveries cal now s =
     map (buildDeliveryWithDetails s)
       (filter (scheduledWithin (setHours0 cal now) (setDatePlus cal 1 (setHours0 cal now)))
          (Map_values (deliveries s)))"
    unfolding getTodayDeliveries_def
    by (simp add: scheduledToday_iff [abs_def])
  moreover have
    "\<not> scheduledToday cal now (d\<lparr>scheduledDate := Some (Time (setHours0 cal now - 60000))\<rparr>)"
    by (simp add: scheduledToday_def Let_def)
  moreover have "\<not> scheduledToday cal now
         (d\<lparr>scheduledDate := Some (Time (setDatePlus cal 1 (setHours0 cal now)))\<rparr>)"
    by (simp add: scheduledToday_def Let_def)
  moreover have "\<not> scheduledToday cal now (d\<lparr>scheduledDate := None\<rparr>)"
    by (simp add: scheduledToday_def)
  moreover have "\<not> scheduledToday cal now (d\<lparr>scheduledDate := Some Invalid_Date\<rparr>)"
    by (simp add: scheduledToday_def)
  moreover have "scheduledToday cal now (d\<lparr>scheduledDate := Some (Time (setHours0 cal now))\<rparr>)
        \<longleftrightarrow> setHours0 cal now < setDatePlus cal 1 (setHours0 cal now)"
    by (simp add: scheduledToday_def Let_def)
  ultimately show ?thesis by blast
qed

text \<open>
  In the calendar with a fixed offset, \<^verbatim>\<open>today\<close> is the local midnight at or before the
  call and \<^verbatim>\<open>tomorrow\<close> the one after it.
\<close>

lemma fixed_offset_today:
  "(setHours0 (fixed_offset tz) now - tz * 60000) mod msPerDay = 0"
  "setHours0 (fixed_offset tz) now \<le> now"
  "now < setDatePlus (fixed_offset tz) 1 (setHours0 (fixed_offset tz) now)"
  "setDatePlus (fixed_offset tz) 1 (setHours0 (fixed_offset tz) now)
     = setHours0 (fixed_offset tz) now + msPerDay"
proof -
  have eq: "setHours0 (fixed_offset tz) now - tz * 60000
      = (now - tz * 60000) - (now - tz * 60000) mod msPerDay"
    by (simp add: fixed_offset_def)
  show "(setHours0 (fixed_offset tz) now - tz * 60000) mod msPerDay = 0"
    unfolding eq by (simp add: minus_mod_eq_mult_div)
  have "0 \<le> (now - tz * 60000) mod msPerDay" "(now - tz * 60000) mod msPerDay < msPerDay"
    by (simp_all add: msPerDay_def)
  then show "setHours0 (fixed_offset tz) now \<le> now"
    and "now < setDatePlus (fixed_offset tz) 1 (setHours0 (fixed_offset tz) now)"
    by (simp_all add: fixed_offset_def)
  show "setDatePlus (fixed_offset tz) 1 (setHours0 (fixed_offset tz) now)
     = setHours0 (fixed_offset tz) now + msPerDay"
    by (simp add: fixed_offset_def)
qed

text \<open>
  On the day when daylight-saving time ends in New York, \<^verbatim>\<open>today\<close> is 04:00 UTC,
  \<^verbatim>\<open>tomorrow\<close> is 25 hours later, and the delivery scheduled for 00:30 local time is
  among the deliveries of today.
\<close>

lemma daylight_saving_example:
  "setHours0 new_york new_york_noon = 1793505600000
   \<and> setDatePlus new_york 1 (setHours0 new_york new_york_noon) = 1793505600000 + 25 * 3600000
   \<and> map delivery_id (getTodayDeliveries new_york new_york_noon new_york_storage)
       = [demo_uuid 35, demo_uuid 36, ''uuid-early'']"
  by code_simp

text \<open>The scenario of the specification, on the concrete storage.\<close>

lemma today_deliveries_scenario:
  "setHours0 demo_calendar demo_now = 1793588400000
   \<and> map delivery_id (Map_values (deliveries boundary_storage))
       = [demo_uuid 35, demo_uuid 36, demo_uuid 37, ''uuid-eve'', ''uuid-midnight'', ''uuid-next'']
   \<and> map delivery_id (getTodayDeliveries demo_calendar demo_now boundary_storage)
       = [demo_uuid 35, demo_uuid 36, ''uuid-midnight'']"
  by code_simp

text \<open>
  A patch as server/routes.ts builds it leaves the delivery without a scheduled date,
  and the delivery is then in no day.
\<close>

lemma route_patch_example:
  "map_option scheduledDate
     (fst (updateDelivery (demo_now + 1) (demo_uuid 36) route_patch demo_storage)) = Some None
   \<and> map delivery_id
       (getTodayDeliveries demo_calendar demo_now
          (snd (updateDelivery (demo_now + 1) (demo_uuid 36) route_patch demo_storage)))
       = [demo_uuid 35]"
  by code_simp

subsection \<open>Dashboard\<close>

text \<open>A map that satisfies the invariant has one record for each key, so counting the
  values counts the keys.\<close>

lemma length_filter_values:
  assumes "keyed f m"
  shows "length (filter P (Map_values m)) = card {k. \<exists>v. Map_get m k = Some v \<and> P v}"
proof -
  from assms have dk: "distinct (map fst m)"
    by (simp add: keyed_def)
  then have dm: "distinct m" and inj: "inj_on fst (set m)"
    by (simp_all add: distinct_map)
  let ?sel = "filter (\<lambda>kv. P (snd kv)) m"
  have "length (filter P (Map_values m)) = length ?sel"
    by (simp add: Map_values_def filter_map comp_def)
  also have "\<dots> = card (set ?sel)"
  proof -
    have "distinct ?sel" using dm by simp
    then show ?thesis by (rule distinct_card [symmetric])
  qed
  also have "\<dots> = card (fst ` set ?sel)"
  proof (rule card_image [symmetric])
    show "inj_on fst (set ?sel)"
      by (rule inj_on_subset [OF inj]) auto
  qed
  also have "fst ` set ?sel = {k. \<exists>v. Map_get m k = Some v \<and> P v}"
  proof -
    have "(k, v) \<in> set m \<longleftrightarrow> Map_get m k = Some v" for k v
      using dk by (simp add: Map_get_def)
    then show ?thesis by (auto simp: image_iff)
  qed
  finally show ?thesis .
qed

lemma foldl_map_fun: "foldl (\<lambda>a x. f a (g x)) z xs = foldl f z (map g xs)"
  by (induction xs arbitrary: z) simp_all

lemma contribution_eq:
  assumes "parseFloat N ''0'' = zero_number N"
  shows "parseFloat N (or_default (totalValue ord) ''0'') = contribution N ord"
  using assms by (cases "totalValue ord") (simp_all add: contribution_def)

text \<open>
  C8. Take a storage that satisfies the invariant and a platform where
  \<^verbatim>\<open>setHours(0, 0, 0, 0)\<close> keeps the local year and month and \<^verbatim>\<open>parseFloat("0")\<close> is zero.
  Then \<^verbatim>\<open>getDashboardStats\<close> returns: the number of stored orders with status
  \<^verbatim>\<open>"pending"\<close>; the number of stored deliveries scheduled from the start of the local
  day of the call up to the start of the next; the number of stored clients whose
  \<^verbatim>\<open>active\<close> is \<^verbatim>\<open>true\<close>; and the sum, from zero and in the order of the map, over the
  orders created at or after the first day of the month of the call, of the parsed
  \<^verbatim>\<open>totalValue\<close>, or of zero for an order whose \<^verbatim>\<open>totalValue\<close> is empty or missing.
\<close>

theorem dashboard_stats:
  assumes "wf_storage s"
    and "getFullYear cal (setHours0 cal now) = getFullYear cal now"
    and "getMonth cal (setHours0 cal now) = getMonth cal now"
    and "parseFloat N ''0'' = zero_number N"
  shows "pendingOrders (getDashboardStats N cal now s)
       = card {k. \<exists>ord. Map_get (orders s) k = Some ord \<and> order_status ord = ''pending''}
   \<and> todayDeliveries (getDashboardStats N cal now s)
       = card {k. \<exists>d. Map_get (deliveries s) k = Some d
                 \<and> scheduledWithin (setHours0 cal now) (setDatePlus cal 1 (setHours0 cal now)) d}
   \<and> activeClients (getDashboardStats N cal now s)
       = card {k. \<exists>c. Map_get (clients s) k = Some c \<and> client_active c = Some True}
   \<and> monthlyValue (getDashboardStats N cal now s)
       = foldl (plus_number N) (zero_number N)
           (map (contribution N)
              (filter (\<lambda>ord. firstOfMonth cal now \<le> createdAt ord) (Map_values (orders s))))"
proof -
  from assms(1) have k: "keyed order_id (orders s)" "keyed delivery_id (deliveries s)"
    "keyed client_id (clients s)"
    by (simp_all add: wf_storage_def)
  have 1: "pendingOrders (getDashboardStats N cal now s)
       = card {k. \<exists>ord. Map_get (orders s) k = Some ord \<and> order_status ord = ''pending''}"
    using length_filter_values [OF k(1), of "\<lambda>ord. order_status ord = ''pending''"]
    by (simp add: getDashboardStats_def Let_def)
  have 2: "todayDeliveries (getDashboardStats N cal now s)
       = card {k. \<exists>d. Map_get (deliveries s) k = Some d
                 \<and> scheduledWithin (setHours0 cal now) (setDatePlus cal 1 (setHours0 cal now)) d}"
    using length_filter_values [OF k(2),
        of "scheduledWithin (setHours0 cal now) (setDatePlus cal 1 (setHours0 cal now))"]
    by (simp add: getDashboardStats_def Let_def scheduledToday_iff [abs_def])
  have 3: "activeClients (getDashboardStats N cal now s)
       = card {k. \<exists>c. Map_get (clients s) k = Some c \<and> client_active c = Some True}"
    using length_filter_values [OF k(3), of "\<lambda>c. client_active c = Some True"]
    by (simp add: getDashboardStats_def Let_def)
  have start: "newDate cal (getFullYear cal (setHours0 cal now)) (getMonth cal (setHours0 cal now)) 1
      = firstOfMonth cal now"
    by (simp add: firstOfMonth_def assms(2,3))
  have 4: "monthlyValue (getDashboardStats N cal now s)
       = foldl (plus_number N) (zero_number N)
           (map (contribution N)
              (filter (\<lambda>ord. firstOfMonth cal now \<le> createdAt ord) (Map_values (orders s))))"
    unfolding getDashboardStats_def Let_def start
    by (simp add: contribution_eq [OF assms(4)] foldl_map_fun [of "plus_number N" "contribution N"])
  from 1 2 3 4 show ?thesis by simp
qed

theorem dashboard_stats_witness:
  "wf_storage dashboard_storage
   \<and> getFullYear demo_calendar (setHours0 demo_calendar demo_now)
       = getFullYear demo_calendar demo_now
   \<and> getMonth demo_calendar (setHours0 demo_calendar demo_now) = getMonth demo_calendar demo_now
   \<and> parseFloat cents ''0'' = zero_number cents
   \<and> firstOfMonth demo_calendar demo_now = 1793502000000
   \<and> map (\<lambda>ord. (totalValue ord, createdAt ord)) (Map_values (orders dashboard_storage))
       = [(None, demo_now), (Some [], demo_now - 86400000),
          (Some ''2100.00'', demo_now - 172800000), (Some ''100.50'', demo_now + 2)]
   \<and> card {k. \<exists>ord. Map_get (orders dashboard_storage) k = Some ord
              \<and> order_status ord = ''pending''} = 2
   \<and> card {k. \<exists>d. Map_get (deliveries dashboard_storage) k = Some d
              \<and> scheduledWithin (setHours0 demo_calendar demo_now)
                   (setDatePlus demo_calendar 1 (setHours0 demo_calendar demo_now)) d} = 1
   \<and> card {k. \<exists>c. Map_get (clients dashboard_storage) k = Some c
              \<and> client_active c = Some True} = 3
   \<and> foldl (plus_number cents) (zero_number cents)
        (map (contribution cents)
           (filter (\<lambda>ord. firstOfMonth demo_calendar demo_now \<le> createdAt ord)
              (Map_values (orders dashboard_storage)))) = 10050"
proof -
  have h1: "wf_storage dashboard_storage"
    by code_simp
  have h2: "getFullYear demo_calendar (setHours0 demo_calendar demo_now)
       = getFullYear demo_calendar demo_now"
    by code_simp
  have h3: "getMonth demo_calendar (setHours0 demo_calendar demo_now)
       = getMonth demo_calendar demo_now"
    by code_simp
  have h4: "parseFloat cents ''0'' = zero_number cents"
    by code_simp
  have v: "getDashboardStats cents demo_calendar demo_now dashboard_storage
      = \<lparr>pendingOrders = 2, todayDeliveries = 1, activeClients = 3, monthlyValue = 10050\<rparr>"
    by code_simp
  have f: "firstOfMonth demo_calendar demo_now = 1793502000000"
    by code_simp
  have o: "map (\<lambda>ord. (totalValue ord, createdAt ord)) (Map_values (orders dashboard_storage))
       = [(None, demo_now), (Some [], demo_now - 86400000),
          (Some ''2100.00'', demo_now - 172800000), (Some ''100.50'', demo_now + 2)]"
    by code_simp
  from dashboard_stats [OF h1 h2 h3 h4] h1 h2 h3 h4 f o show ?thesis
    unfolding v by simp
qed

text \<open>The calendar with a fixed offset on dates around the ends of months and years.\<close>

lemma firstOfMonth_examples:
  "firstOfMonth (fixed_offset 0) 0 = 0"
  "firstOfMonth (fixed_offset 0) (- 1) = - 2678400000"
  "firstOfMonth (fixed_offset 0) 1709164800000 = 1706745600000"
  "firstOfMonth (fixed_offset 0) 1709251200000 = 1709251200000"
  "firstOfMonth (fixed_offset 180) 1709261999999 = 1706756400000"
  "firstOfMonth (fixed_offset (- 60)) 4107542399999 = 4107538800000"
  by code_simp+

subsection \<open>Creation\<close>

lemma createClient_roundtrip:
  "getClient (snd (createClient i c s)) i = Some (fst (createClient i c s))
   \<and> InsertClient.truncate (fst (createClient i c s)) = c
   \<and> client_id (fst (createClient i c s)) = i"
  by (simp add: createClient_def getClient_def Let_def Map_get_set InsertClient.defs Client.defs)

lemma create_status_default:
  "order_status (fst (createOrder u t d its s)) = or_default (po_status d) ''pending''"
  "delivery_status (fst (createDelivery i ins s)) = or_default (id_status ins) ''pending''"
  "or_default None ''pending'' = ''pending''"
  by (simp_all add: createOrder_def createDelivery_def Let_def buildOrderWithDetails_def
      withParties_def Order.defs OrderWithParties.defs OrderWithDetails.defs newOrder_def)

text \<open>
  C4 fails in \<^verbatim>\<open>createClient\<close>, which stores \<^verbatim>\<open>{ ...insertClient, id }\<close> and applies no
  default: a client created without \<^verbatim>\<open>active\<close> is stored without it, and the dashboard
  does not count it among the active clients.
\<close>

theorem createClient_active_not_defaulted:
  "client_active client_without_active = None
   \<and> map_option client_active
        (getClient (snd (createClient ''uuid-client'' client_without_active demo_storage))
           ''uuid-client'') = Some None
   \<and> length (getClients (snd (createClient ''uuid-client'' client_without_active demo_storage)))
       = 4
   \<and> activeClients
        (getDashboardStats symbolic_numbers demo_calendar demo_now
           (snd (createClient ''uuid-client'' client_without_active demo_storage))) = 3"
  by code_simp

end
